theory Spec2Isabelle
  imports Main
begin

section \<open>JavaScript values and the built-in operations the host applies to them\<close>

text \<open>
  A mailbox file is read with \<^verbatim>\<open>JSON.parse\<close>, so the value the host works on is any
  JSON value. Strings are lists of code units. Numbers are integers (exact, and printed in
  plain decimal, as JavaScript prints integers below 1e21); \<open>NaN\<close> is kept apart, since
  the host tests for it. An object lists its own properties, each name once.
\<close>

datatype json =
    JNull
  | JBool bool
  | JNum int
  | JStr string
  | JArr "json list"
  | JObj "(string \<times> json) list"

datatype jsnum = NaN | Num int

datatype exn = SyntaxError | TypeError | RangeError | TelegramError

text \<open>
  \<^verbatim>\<open>data.k\<close> on a value that is not \<^verbatim>\<open>null\<close>: the own property of an object,
  \<^verbatim>\<open>undefined\<close> (\<open>None\<close>) otherwise. None of the names the host reads is a property of
  a string, number, boolean or array prototype.
\<close>

definition field :: "json \<Rightarrow> string \<Rightarrow> json option" where
  "field v k = (case v of JObj kvs \<Rightarrow> map_of kvs k | _ \<Rightarrow> None)"

text \<open>Truthiness, as \<^verbatim>\<open>if (x)\<close>, \<^verbatim>\<open>x && y\<close> and \<^verbatim>\<open>x || y\<close> test it.\<close>

fun truthy :: "json option \<Rightarrow> bool" where
  "truthy None = False"
| "truthy (Some JNull) = False"
| "truthy (Some (JBool b)) = b"
| "truthy (Some (JNum n)) = (n \<noteq> 0)"
| "truthy (Some (JStr s)) = (s \<noteq> [])"
| "truthy (Some (JArr xs)) = True"
| "truthy (Some (JObj kvs)) = True"

text \<open>
  \<^verbatim>\<open>a === b\<close> on two parsed values: primitives compare by value, arrays and objects by
  identity, and two values that come from different places are never the same object.
\<close>

fun strictEq :: "json \<Rightarrow> json \<Rightarrow> bool" where
  "strictEq JNull JNull = True"
| "strictEq (JBool a) (JBool b) = (a = b)"
| "strictEq (JNum a) (JNum b) = (a = b)"
| "strictEq (JStr a) (JStr b) = (a = b)"
| "strictEq _ _ = False"

function show_nat :: "nat \<Rightarrow> string" where
  "show_nat n = (if n < 10 then [''0123456789'' ! n]
                 else show_nat (n div 10) @ [''0123456789'' ! (n mod 10)])"
  by pat_completeness auto
termination
  by (relation "measure (\<lambda>n. n)") auto

declare show_nat.simps [simp del]

definition show_int :: "int \<Rightarrow> string" where
  "show_int i = (if i < 0 then CHR ''-'' # show_nat (nat (- i)) else show_nat (nat i))"

fun join_with :: "string \<Rightarrow> string list \<Rightarrow> string" where
  "join_with sep [] = []"
| "join_with sep [s] = s"
| "join_with sep (s # t # ts) = s @ sep @ join_with sep (t # ts)"

text \<open>
  \<^verbatim>\<open>String(v)\<close>, as a template literal, a property key and \<^verbatim>\<open>parseInt\<close> apply it.
  \<open>None\<close> is the \<^verbatim>\<open>TypeError\<close> of an object that cannot be converted: a parsed object
  with an own \<^verbatim>\<open>toString\<close> property holds a value there that cannot be called, and
  \<^verbatim>\<open>valueOf\<close> gives the object back. An array joins its elements with commas,
  \<^verbatim>\<open>null\<close> elements as the empty string.
\<close>

fun ToString :: "json \<Rightarrow> string option" where
  "ToString JNull = Some ''null''"
| "ToString (JBool b) = Some (if b then ''true'' else ''false'')"
| "ToString (JNum n) = Some (show_int n)"
| "ToString (JStr s) = Some s"
| "ToString (JArr xs) =
     (let ss = map (\<lambda>x. if x = JNull then Some [] else ToString x) xs
      in if None \<in> set ss then None else Some (join_with '','' (map the ss)))"
| "ToString (JObj kvs) =
     (if ''toString'' \<in> fst ` set kvs then None else Some ''[object Object]'')"

definition isWhiteSpace :: "char \<Rightarrow> bool" where
  "isWhiteSpace c \<longleftrightarrow> c \<in> set [CHR 0x09, CHR 0x0A, CHR 0x0B, CHR 0x0C, CHR 0x0D, CHR 0x20, CHR 0xA0]"

definition isDigit :: "char \<Rightarrow> bool" where
  "isDigit c \<longleftrightarrow> c \<in> set ''0123456789''"

definition digitVal :: "char \<Rightarrow> nat" where
  "digitVal c = of_char c - 48"

text \<open>
  \<^verbatim>\<open>parseInt(s, 10)\<close> on a string: leading white space is skipped, a sign is read, then
  the longest run of decimal digits; no digit gives \<open>NaN\<close>, and what follows the digits
  is ignored.
\<close>

definition parseInt10 :: "string \<Rightarrow> jsnum" where
  "parseInt10 s =
     (let t = dropWhile isWhiteSpace s;
          neg = (case t of c # _ \<Rightarrow> c = CHR ''-'' | [] \<Rightarrow> False);
          u = (case t of c # r \<Rightarrow> if c = CHR ''-'' \<or> c = CHR ''+'' then r else t | [] \<Rightarrow> t);
          ds = takeWhile isDigit u;
          m = int (foldl (\<lambda>a c. 10 * a + digitVal c) 0 ds)
      in if ds = [] then NaN else Num (if neg then - m else m))"

definition isNaN :: "jsnum \<Rightarrow> bool" where
  "isNaN x \<longleftrightarrow> x = NaN"

definition startsWith :: "string \<Rightarrow> string \<Rightarrow> bool" where
  "startsWith s p \<longleftrightarrow> take (length p) s = p"

definition endsWith :: "string \<Rightarrow> string \<Rightarrow> bool" where
  "endsWith s p \<longleftrightarrow> length p \<le> length s \<and> drop (length s - length p) s = p"

text \<open>\<^verbatim>\<open>s.replace(p, r)\<close> with a string pattern: the first occurrence only.\<close>

fun replace :: "string \<Rightarrow> string \<Rightarrow> string \<Rightarrow> string" where
  "replace [] p r = (if p = [] then r else [])"
| "replace (c # cs) p r =
     (if startsWith (c # cs) p then r @ drop (length p) (c # cs) else c # replace cs p r)"

text \<open>\<^verbatim>\<open>s.slice(i, j)\<close> with \<open>0 \<le> i \<le> j\<close>.\<close>

definition slice :: "'a list \<Rightarrow> nat \<Rightarrow> nat \<Rightarrow> 'a list" where
  "slice s i j = take (j - i) (drop i s)"

text \<open>
  A timestamp string in ISO format is represented by the time value it denotes, in
  milliseconds since the epoch. A \<^verbatim>\<open>Date\<close> holds a time value of magnitude at most
  8.64e15 or is invalid, and \<^verbatim>\<open>toISOString\<close> throws \<^verbatim>\<open>RangeError\<close> on an invalid one.
\<close>

type_synonym isotime = int

definition validTime :: "int \<Rightarrow> bool" where
  "validTime t \<longleftrightarrow> \<bar>t\<bar> \<le> 8640000000000000"

section \<open>Configuration, platform and host state\<close>

text \<open>
  The constants of \<^verbatim>\<open>config.js\<close> that the mailbox code reads; the file is not among
  the sources, so they are parameters.
\<close>

record config =
  MAIN_GROUP_FOLDER :: string
  ASSISTANT_NAME :: string

text \<open>
  What the platform and the libraries decide: the JSON parser (\<open>None\<close>: it throws), the
  cron parser in the configured time zone (the next fire time of an expression; \<open>None\<close>:
  \<^verbatim>\<open>parse\<close> or \<^verbatim>\<open>next\<close> throws), the date parser of \<^verbatim>\<open>new Date(string)\<close> (\<open>None\<close>: an
  invalid date), \<^verbatim>\<open>Number(string)\<close>, the clock (\<open>Date_now P l\<close> is the reading taken by
  the call on source line \<open>l\<close>), the characters \<^verbatim>\<open>Math.random().toString(36).slice(2, 8)\<close>
  gives, whether the Telegram API accepts a call (chat, text, Markdown mode) or throws,
  and the longest file name that the file system of \<^verbatim>\<open>data/ipc\<close> takes.
\<close>

record platform =
  JSON_parse :: "string \<Rightarrow> json option"
  cron_next :: "json \<Rightarrow> isotime option"
  Date_parse :: "string \<Rightarrow> int option"
  Number_of_string :: "string \<Rightarrow> jsnum"
  Date_now :: "nat \<Rightarrow> int"
  Math_random36 :: string
  telegram_accepts :: "jsnum \<Rightarrow> string \<Rightarrow> bool \<Rightarrow> bool"
  NAME_MAX :: nat

text \<open>A row of the task table, as \<^verbatim>\<open>createTask\<close> receives it.\<close>

record task =
  task_id :: string
  group_folder :: json
  chat_jid :: json
  prompt :: json
  schedule_type :: json
  schedule_value :: json
  context_mode :: string
  next_run :: "isotime option"
  status :: string
  created_at :: isotime

record RegisteredGroup =
  name :: json
  folder :: json
  trigger :: json
  added_at :: isotime
  containerConfig :: "json option"

record PairedUser =
  pu_userId :: jsnum
  pu_username :: "string option"
  pu_firstName :: "string option"
  pairedAt :: isotime
  approvedBy :: "string option"

record PendingApproval =
  pa_userId :: jsnum
  pa_username :: "string option"
  pa_firstName :: "string option"
  requestedAt :: isotime
  firstMessage :: string

datatype level = LogDebug | LogInfo | LogWarn | LogError

text \<open>
  The host's state: the task table, \<^verbatim>\<open>registeredGroups\<close> (saved to
  \<^verbatim>\<open>registered_groups.json\<close>, in the order \<^verbatim>\<open>Object.entries\<close> lists it), the group
  folders created, the two access-control files, whether the bot is started, the messages
  the Telegram API accepted, and the log.
\<close>

record host =
  tasks :: "task list"
  registeredGroups :: "(string \<times> RegisteredGroup) list"
  groupDirs :: "string list"
  pairedUsers :: "jsnum \<rightharpoonup> PairedUser"
  pendingApprovals :: "jsnum \<rightharpoonup> PendingApproval"
  bot :: bool
  outbox :: "(jsnum \<times> string \<times> bool) list"
  logs :: "(level \<times> string) list"

text \<open>A call returns (\<open>Inr\<close>, with the state it leaves) or throws (\<open>Inl\<close>, with the
  exception and the state at the throw).\<close>

type_synonym result = "(exn \<times> host) + host"

definition logger :: "level \<Rightarrow> string \<Rightarrow> host \<Rightarrow> host" where
  "logger l m st = st\<lparr>logs := logs st @ [(l, m)]\<rparr>"

section \<open>The task table\<close>

text \<open>
  The functions of \<^verbatim>\<open>db.js\<close>, which is not among the sources. The spec has the task
  store as a durable table of rows keyed by id, in which a control request creates a row,
  flips the status of a row or deletes a row.
\<close>

text \<open>Modelled from the spec: \<^verbatim>\<open>createTask\<close> of \<^verbatim>\<open>db.js\<close> inserts the row as a new
  task.\<close>

definition createTask :: "task \<Rightarrow> host \<Rightarrow> host" where
  "createTask t st = st\<lparr>tasks := tasks st @ [t]\<rparr>"

text \<open>Modelled from the spec: \<^verbatim>\<open>getTaskById\<close> of \<^verbatim>\<open>db.js\<close> gives the row whose id is
  the one asked for, if there is one.\<close>

definition getTaskById :: "json \<Rightarrow> host \<Rightarrow> task option" where
  "getTaskById i st = find (\<lambda>t. JStr (task_id t) = i) (tasks st)"

text \<open>Modelled from the spec: \<^verbatim>\<open>updateTask\<close> of \<^verbatim>\<open>db.js\<close> changes the given fields of
  the row with that id.\<close>

definition updateTask :: "json \<Rightarrow> (task \<Rightarrow> task) \<Rightarrow> host \<Rightarrow> host" where
  "updateTask i upd st = st\<lparr>tasks := map (\<lambda>t. if JStr (task_id t) = i then upd t else t) (tasks st)\<rparr>"

text \<open>Modelled from the spec: \<^verbatim>\<open>deleteTask\<close> of \<^verbatim>\<open>db.js\<close> deletes the row with that
  id.\<close>

definition deleteTask :: "json \<Rightarrow> host \<Rightarrow> host" where
  "deleteTask i st = st\<lparr>tasks := filter (\<lambda>t. JStr (task_id t) \<noteq> i) (tasks st)\<rparr>"

section \<open>Telegram: sending and the pairing store\<close>

definition maxLen :: nat where
  "maxLen = 4000"

text \<open>\<^verbatim>\<open>bot.telegram.sendMessage\<close> and \<^verbatim>\<open>ctx.reply\<close>: the message is delivered, or the
  call throws.\<close>

definition telegram_sendMessage :: "platform \<Rightarrow> jsnum \<Rightarrow> string \<Rightarrow> bool \<Rightarrow> host \<Rightarrow> result" where
  "telegram_sendMessage P chatId text markdown st =
     (if telegram_accepts P chatId text markdown
      then Inr (st\<lparr>outbox := outbox st @ [(chatId, text, markdown)]\<rparr>)
      else Inl (TelegramError, st))"

text \<open>The loop \<^verbatim>\<open>for (let i = 0; i < text.length; i += maxLen)\<close>, from index \<open>i\<close>.\<close>

function sendChunks :: "platform \<Rightarrow> jsnum \<Rightarrow> string \<Rightarrow> nat \<Rightarrow> host \<Rightarrow> result" where
  "sendChunks P chatId text i st =
     (if i < length text
      then (case telegram_sendMessage P chatId (slice text i (i + maxLen)) False st of
              Inl e \<Rightarrow> Inl e
            | Inr st' \<Rightarrow> sendChunks P chatId text (i + maxLen) st')
      else Inr st)"
  by pat_completeness auto
termination
  by (relation "measure (\<lambda>(P, chatId, text, i, st). length text - i)") (auto simp: maxLen_def)

declare sendChunks.simps [simp del]

definition sendTelegramMessage :: "platform \<Rightarrow> jsnum \<Rightarrow> string \<Rightarrow> host \<Rightarrow> bool \<times> host" where
  "sendTelegramMessage P chatId text st =
     (if \<not> bot st
      then (False, logger LogWarn ''Cannot send Telegram message: bot not started'' st)
      else
        (case (if length text \<le> maxLen
               then (case telegram_sendMessage P chatId text True st of
                       Inl e \<Rightarrow> telegram_sendMessage P chatId text False st
                     | Inr st' \<Rightarrow> Inr st')
               else sendChunks P chatId text 0 st) of
           Inr st' \<Rightarrow> (True, logger LogInfo ''Telegram message sent'' st')
         | Inl (e, st') \<Rightarrow> (False, logger LogError ''Failed to send Telegram message'' st')))"

text \<open>\<^verbatim>\<open>sendTelegramResponse(ctx, text)\<close>; \<open>ctx\<close> is the chat that \<^verbatim>\<open>ctx.reply\<close> answers.\<close>

definition sendTelegramResponse :: "platform \<Rightarrow> jsnum \<Rightarrow> string \<Rightarrow> host \<Rightarrow> result" where
  "sendTelegramResponse P ctx text st =
     (if length text \<le> maxLen
      then (case telegram_sendMessage P ctx text True st of
              Inl e \<Rightarrow> telegram_sendMessage P ctx text False st
            | Inr st' \<Rightarrow> Inr st')
      else sendChunks P ctx text 0 st)"

definition isUserPaired :: "jsnum \<Rightarrow> host \<Rightarrow> bool" where
  "isUserPaired userId st \<longleftrightarrow> pairedUsers st userId \<noteq> None"

definition hasPendingApproval :: "jsnum \<Rightarrow> host \<Rightarrow> bool" where
  "hasPendingApproval userId st \<longleftrightarrow> pendingApprovals st userId \<noteq> None"

definition requestApproval ::
  "platform \<Rightarrow> jsnum \<Rightarrow> string option \<Rightarrow> string option \<Rightarrow> string option \<Rightarrow> host \<Rightarrow> host" where
  "requestApproval P userId username firstName firstMsg st =
     (if pendingApprovals st userId \<noteq> None then st
      else logger LogInfo ''Telegram access requested''
        (st\<lparr>pendingApprovals := (pendingApprovals st)(userId \<mapsto>
              \<lparr>pa_userId = userId, pa_username = username, pa_firstName = firstName,
               requestedAt = Date_now P 487,
               firstMessage = (case firstMsg of None \<Rightarrow> [] | Some m \<Rightarrow> m)\<rparr>)\<rparr>))"

text \<open>The notification of \<^verbatim>\<open>approveUser\<close> and \<^verbatim>\<open>denyUser\<close>: sent when the bot is
  started, a failure only logged.\<close>

definition notifyUser :: "platform \<Rightarrow> jsnum \<Rightarrow> string \<Rightarrow> string \<Rightarrow> host \<Rightarrow> host" where
  "notifyUser P userId text failure st =
     (if bot st
      then (case telegram_sendMessage P userId text False st of
              Inr st' \<Rightarrow> st'
            | Inl (e, st') \<Rightarrow> logger LogDebug failure st')
      else st)"

definition approveUser :: "platform \<Rightarrow> jsnum \<Rightarrow> string option \<Rightarrow> host \<Rightarrow> bool \<times> host" where
  "approveUser P userId approver st =
     (let pendingUser = pendingApprovals st userId;
          st1 = st\<lparr>pairedUsers := (pairedUsers st)(userId \<mapsto>
                  \<lparr>pu_userId = userId,
                   pu_username = (case pendingUser of None \<Rightarrow> None | Some p \<Rightarrow> pa_username p),
                   pu_firstName = (case pendingUser of None \<Rightarrow> None | Some p \<Rightarrow> pa_firstName p),
                   pairedAt = Date_now P 504,
                   approvedBy = approver\<rparr>)\<rparr>;
          st2 = (if pendingUser \<noteq> None
                 then st1\<lparr>pendingApprovals := (pendingApprovals st1)(userId := None)\<rparr>
                 else st1);
          st3 = logger LogInfo ''Telegram user approved'' st2
      in (True, notifyUser P userId ''Access approved! You can now chat with me.''
                  ''Could not notify approved user'' st3))"

definition denyUser :: "platform \<Rightarrow> jsnum \<Rightarrow> host \<Rightarrow> bool \<times> host" where
  "denyUser P userId st =
     (if pendingApprovals st userId \<noteq> None
      then (True, notifyUser P userId ''Access denied.'' ''Could not notify denied user''
                    (logger LogInfo ''Telegram user denied''
                       (st\<lparr>pendingApprovals := (pendingApprovals st)(userId := None)\<rparr>)))
      else (False, st))"

text \<open>
  The pairing check at the head of \<^verbatim>\<open>handleMessage\<close> (the only caller of
  \<^verbatim>\<open>requestApproval\<close>): a sender who is not paired is asked to wait when a request is
  pending, and a request is filed otherwise. Only the effect on the host state is kept;
  the replies go to the sender's chat.
\<close>

definition handleMessage_pairing ::
  "platform \<Rightarrow> jsnum \<Rightarrow> string option \<Rightarrow> string option \<Rightarrow> string \<Rightarrow> host \<Rightarrow> host" where
  "handleMessage_pairing P userId username firstName text st =
     (if userId \<noteq> NaN \<and> userId \<noteq> Num 0 \<and> \<not> isUserPaired userId st
      then (if hasPendingApproval userId st then st
            else requestApproval P userId username firstName (Some text) st)
      else st)"

section \<open>The control-request handler\<close>

text \<open>\<^verbatim>\<open>obj[k] = v\<close> on a record kept in listing order: an existing key keeps its place, a
  new key goes last (the keys here are chat identifiers and file names; a key that is an
  array index would be listed before the others).\<close>

fun assign :: "'k \<Rightarrow> 'v \<Rightarrow> ('k \<times> 'v) list \<Rightarrow> ('k \<times> 'v) list" where
  "assign k v [] = [(k, v)]"
| "assign k v ((k', v') # kvs) = (if k' = k then (k, v) # kvs else (k', v') # assign k v kvs)"

text \<open>
  \<^verbatim>\<open>registerGroup(jid, group)\<close>: the key of \<^verbatim>\<open>registeredGroups[jid]\<close> is the string of
  \<open>jid\<close>; the registry is written before the group folder is made, and \<^verbatim>\<open>path.join\<close>
  throws on a folder that is not a string.
\<close>

definition registerGroup :: "json \<Rightarrow> RegisteredGroup \<Rightarrow> host \<Rightarrow> result" where
  "registerGroup jid grp st =
     (case ToString jid of
        None \<Rightarrow> Inl (TypeError, st)
      | Some key \<Rightarrow>
          (let st1 = st\<lparr>registeredGroups := assign key grp (registeredGroups st)\<rparr>
           in case folder grp of
                JStr f \<Rightarrow> Inr (logger LogInfo ''Group registered'' (st1\<lparr>groupDirs := groupDirs st1 @ [f]\<rparr>))
              | _ \<Rightarrow> Inl (TypeError, st1)))"

text \<open>\<^verbatim>\<open>Number(v)\<close>; \<open>None\<close> is the \<^verbatim>\<open>TypeError\<close> of a value that has no primitive.\<close>

definition Number :: "platform \<Rightarrow> json \<Rightarrow> jsnum option" where
  "Number P v =
     (case v of
        JNull \<Rightarrow> Some (Num 0)
      | JBool b \<Rightarrow> Some (Num (if b then 1 else 0))
      | JNum n \<Rightarrow> Some (Num n)
      | JStr s \<Rightarrow> Some (Number_of_string P s)
      | _ \<Rightarrow> map_option (Number_of_string P) (ToString v))"

text \<open>\<^verbatim>\<open>parseInt(v, 10)\<close>: the argument is converted to a string first.\<close>

definition parseInt :: "json \<Rightarrow> jsnum option" where
  "parseInt v = map_option parseInt10 (ToString v)"

text \<open>
  \<^verbatim>\<open>new Date(v).getTime()\<close>: \<open>Inl\<close> when the conversion to a primitive throws,
  \<open>Inr None\<close> for an invalid date (\<^verbatim>\<open>NaN\<close>).
\<close>

definition newDate :: "platform \<Rightarrow> json \<Rightarrow> exn + int option" where
  "newDate P v =
     (case v of
        JNull \<Rightarrow> Inr (Some 0)
      | JBool b \<Rightarrow> Inr (Some (if b then 1 else 0))
      | JNum n \<Rightarrow> Inr (if validTime n then Some n else None)
      | JStr s \<Rightarrow> Inr (Date_parse P s)
      | _ \<Rightarrow> (case ToString v of None \<Rightarrow> Inl TypeError | Some s \<Rightarrow> Inr (Date_parse P s)))"

text \<open>Lines 208 to 224: the row is built and inserted.\<close>

definition insertTask ::
  "platform \<Rightarrow> json \<Rightarrow> string \<Rightarrow> json \<Rightarrow> json \<Rightarrow> isotime option \<Rightarrow> host \<Rightarrow> host" where
  "insertTask P data sourceGroup targetGroup targetJid nextRun st =
     (let taskId = ''task-'' @ show_int (Date_now P 208) @ ''-'' @ Math_random36 P;
          contextMode =
            (if field data ''context_mode'' = Some (JStr ''group'') then ''group''
             else if field data ''context_mode'' = Some (JStr ''isolated'') then ''isolated''
             else ''isolated'')
      in logger LogInfo ''Task created via IPC''
           (createTask
              \<lparr>task_id = taskId,
               group_folder = targetGroup,
               chat_jid = targetJid,
               prompt = (case field data ''prompt'' of Some p \<Rightarrow> p | None \<Rightarrow> JNull),
               schedule_type = (case field data ''schedule_type'' of Some t \<Rightarrow> t | None \<Rightarrow> JNull),
               schedule_value = (case field data ''schedule_value'' of Some v \<Rightarrow> v | None \<Rightarrow> JNull),
               context_mode = contextMode,
               next_run = nextRun,
               status = ''active'',
               created_at = Date_now P 222\<rparr> st))"

text \<open>Lines 172 to 174: \<^verbatim>\<open>data.chatJid\<close>, or the key of the first registered group whose
  folder is the target group.\<close>

definition targetJid_of :: "json \<Rightarrow> json \<Rightarrow> host \<Rightarrow> json option" where
  "targetJid_of data targetGroup st =
     (if truthy (field data ''chatJid'') then field data ''chatJid''
      else map_option (\<lambda>(jid, g). JStr jid)
             (find (\<lambda>(jid, g). strictEq (folder g) targetGroup) (registeredGroups st)))"

text \<open>
  Lines 181 to 206: the first fire time by schedule type. The block ends in one of three
  ways: \<^verbatim>\<open>nextRun\<close> is set (or left \<^verbatim>\<open>null\<close>, for a schedule type that is none of the
  three), the case is left with a warning, or an exception is thrown.
\<close>

datatype next_run_result = NextRun "isotime option" | Rejected string | Thrown exn

definition computeNextRun :: "platform \<Rightarrow> json option \<Rightarrow> json \<Rightarrow> next_run_result" where
  "computeNextRun P scheduleType scheduleValue =
     (if scheduleType = Some (JStr ''cron'') then
        (case cron_next P scheduleValue of
           None \<Rightarrow> Rejected ''Invalid cron expression''
         | Some t \<Rightarrow> NextRun (Some t))
      else if scheduleType = Some (JStr ''interval'') then
        (case parseInt scheduleValue of
           None \<Rightarrow> Thrown TypeError
         | Some NaN \<Rightarrow> Rejected ''Invalid interval''
         | Some (Num ms) \<Rightarrow>
             if ms \<le> 0 then Rejected ''Invalid interval''
             else if validTime (Date_now P 198 + ms) then NextRun (Some (Date_now P 198 + ms))
             else Thrown RangeError)
      else if scheduleType = Some (JStr ''once'') then
        (case newDate P scheduleValue of
           Inl e \<Rightarrow> Thrown e
         | Inr None \<Rightarrow> Rejected ''Invalid timestamp''
         | Inr (Some t) \<Rightarrow> NextRun (Some t))
      else NextRun None)"

text \<open>The case \<^verbatim>\<open>schedule_task\<close> of the switch.\<close>

definition schedule_task :: "platform \<Rightarrow> json \<Rightarrow> string \<Rightarrow> bool \<Rightarrow> host \<Rightarrow> result" where
  "schedule_task P data sourceGroup isMain st =
     (if truthy (field data ''prompt'') \<and> truthy (field data ''schedule_type'') \<and>
         truthy (field data ''schedule_value'') \<and> truthy (field data ''groupFolder'')
      then
        (case (field data ''groupFolder'', field data ''schedule_value'') of
           (Some targetGroup, Some scheduleValue) \<Rightarrow>
             if \<not> isMain \<and> targetGroup \<noteq> JStr sourceGroup
             then Inr (logger LogWarn ''Unauthorized schedule_task attempt blocked'' st)
             else
               (case targetJid_of data targetGroup st of
                  None \<Rightarrow> Inr (logger LogWarn ''Cannot schedule task: no JID available'' st)
                | Some targetJid \<Rightarrow>
                    if \<not> truthy (Some targetJid)
                    then Inr (logger LogWarn ''Cannot schedule task: no JID available'' st)
                    else
                      (case computeNextRun P (field data ''schedule_type'') scheduleValue of
                         Rejected msg \<Rightarrow> Inr (logger LogWarn msg st)
                       | Thrown e \<Rightarrow> Inl (e, st)
                       | NextRun nextRun \<Rightarrow>
                           Inr (insertTask P data sourceGroup targetGroup targetJid nextRun st)))
         | _ \<Rightarrow> Inr st)
      else Inr st)"

text \<open>The cases \<^verbatim>\<open>pause_task\<close>, \<^verbatim>\<open>resume_task\<close> and \<^verbatim>\<open>cancel_task\<close>.\<close>

definition pause_task :: "json \<Rightarrow> string \<Rightarrow> bool \<Rightarrow> host \<Rightarrow> result" where
  "pause_task data sourceGroup isMain st =
     (case (truthy (field data ''taskId''), field data ''taskId'') of
        (True, Some taskId) \<Rightarrow>
          (case getTaskById taskId st of
             Some task \<Rightarrow>
               if isMain \<or> group_folder task = JStr sourceGroup
               then Inr (logger LogInfo ''Task paused via IPC''
                           (updateTask taskId (\<lambda>t. t\<lparr>status := ''paused''\<rparr>) st))
               else Inr (logger LogWarn ''Unauthorized task pause attempt'' st)
           | None \<Rightarrow> Inr (logger LogWarn ''Unauthorized task pause attempt'' st))
      | _ \<Rightarrow> Inr st)"

definition resume_task :: "json \<Rightarrow> string \<Rightarrow> bool \<Rightarrow> host \<Rightarrow> result" where
  "resume_task data sourceGroup isMain st =
     (case (truthy (field data ''taskId''), field data ''taskId'') of
        (True, Some taskId) \<Rightarrow>
          (case getTaskById taskId st of
             Some task \<Rightarrow>
               if isMain \<or> group_folder task = JStr sourceGroup
               then Inr (logger LogInfo ''Task resumed via IPC''
                           (updateTask taskId (\<lambda>t. t\<lparr>status := ''active''\<rparr>) st))
               else Inr (logger LogWarn ''Unauthorized task resume attempt'' st)
           | None \<Rightarrow> Inr (logger LogWarn ''Unauthorized task resume attempt'' st))
      | _ \<Rightarrow> Inr st)"

definition cancel_task :: "json \<Rightarrow> string \<Rightarrow> bool \<Rightarrow> host \<Rightarrow> result" where
  "cancel_task data sourceGroup isMain st =
     (case (truthy (field data ''taskId''), field data ''taskId'') of
        (True, Some taskId) \<Rightarrow>
          (case getTaskById taskId st of
             Some task \<Rightarrow>
               if isMain \<or> group_folder task = JStr sourceGroup
               then Inr (logger LogInfo ''Task cancelled via IPC'' (deleteTask taskId st))
               else Inr (logger LogWarn ''Unauthorized task cancel attempt'' st)
           | None \<Rightarrow> Inr (logger LogWarn ''Unauthorized task cancel attempt'' st))
      | _ \<Rightarrow> Inr st)"

text \<open>The cases \<^verbatim>\<open>register_group\<close>, \<^verbatim>\<open>telegram_approve\<close>, \<^verbatim>\<open>telegram_deny\<close> and
  \<^verbatim>\<open>telegram_list_pending\<close>.\<close>

definition register_group :: "platform \<Rightarrow> json \<Rightarrow> string \<Rightarrow> bool \<Rightarrow> host \<Rightarrow> result" where
  "register_group P data sourceGroup isMain st =
     (if \<not> isMain then Inr (logger LogWarn ''Unauthorized register_group attempt blocked'' st)
      else
        (case (truthy (field data ''jid'') \<and> truthy (field data ''name'') \<and>
               truthy (field data ''folder'') \<and> truthy (field data ''trigger''),
               field data ''jid'', field data ''name'', field data ''folder'',
               field data ''trigger'') of
           (True, Some jid, Some n, Some f, Some t) \<Rightarrow>
             registerGroup jid
               \<lparr>name = n, folder = f, trigger = t, added_at = Date_now P 274,
                containerConfig = field data ''containerConfig''\<rparr> st
         | _ \<Rightarrow> Inr (logger LogWarn ''Invalid register_group request - missing required fields'' st)))"

definition telegram_approve :: "platform \<Rightarrow> json \<Rightarrow> string \<Rightarrow> bool \<Rightarrow> host \<Rightarrow> result" where
  "telegram_approve P data sourceGroup isMain st =
     (if \<not> isMain then Inr (logger LogWarn ''Unauthorized telegram_approve attempt blocked'' st)
      else
        (case (truthy (field data ''userId''), field data ''userId'') of
           (True, Some userId) \<Rightarrow>
             (case Number P userId of
                None \<Rightarrow> Inl (TypeError, st)
              | Some n \<Rightarrow>
                  Inr (logger LogInfo ''Telegram user approved via IPC''
                         (snd (approveUser P n (Some ''main'') st))))
         | _ \<Rightarrow> Inr st))"

definition telegram_deny :: "platform \<Rightarrow> json \<Rightarrow> string \<Rightarrow> bool \<Rightarrow> host \<Rightarrow> result" where
  "telegram_deny P data sourceGroup isMain st =
     (if \<not> isMain then Inr (logger LogWarn ''Unauthorized telegram_deny attempt blocked'' st)
      else
        (case (truthy (field data ''userId''), field data ''userId'') of
           (True, Some userId) \<Rightarrow>
             (case Number P userId of
                None \<Rightarrow> Inl (TypeError, st)
              | Some n \<Rightarrow>
                  Inr (logger LogInfo ''Telegram user denied via IPC'' (snd (denyUser P n st))))
         | _ \<Rightarrow> Inr st))"

definition telegram_list_pending :: "bool \<Rightarrow> host \<Rightarrow> result" where
  "telegram_list_pending isMain st =
     (if \<not> isMain then Inr st else Inr (logger LogInfo ''Telegram pending approvals'' st))"

text \<open>
  \<^verbatim>\<open>processTaskIpc(data, sourceGroup, isMain)\<close>. Reading \<^verbatim>\<open>data.type\<close> throws on
  \<^verbatim>\<open>null\<close>; the switch compares with \<^verbatim>\<open>===\<close>.
\<close>

definition processTaskIpc :: "platform \<Rightarrow> json \<Rightarrow> string \<Rightarrow> bool \<Rightarrow> host \<Rightarrow> result" where
  "processTaskIpc P data sourceGroup isMain st =
     (if data = JNull then Inl (TypeError, st)
      else if field data ''type'' = Some (JStr ''schedule_task'')
        then schedule_task P data sourceGroup isMain st
      else if field data ''type'' = Some (JStr ''pause_task'')
        then pause_task data sourceGroup isMain st
      else if field data ''type'' = Some (JStr ''resume_task'')
        then resume_task data sourceGroup isMain st
      else if field data ''type'' = Some (JStr ''cancel_task'')
        then cancel_task data sourceGroup isMain st
      else if field data ''type'' = Some (JStr ''register_group'')
        then register_group P data sourceGroup isMain st
      else if field data ''type'' = Some (JStr ''telegram_approve'')
        then telegram_approve P data sourceGroup isMain st
      else if field data ''type'' = Some (JStr ''telegram_deny'')
        then telegram_deny P data sourceGroup isMain st
      else if field data ''type'' = Some (JStr ''telegram_list_pending'')
        then telegram_list_pending isMain st
      else Inr (logger LogWarn ''Unknown IPC task type'' st))"

section \<open>The mailbox drainer\<close>

text \<open>
  The directory \<^verbatim>\<open>data/ipc\<close>: its sub-directories in listing order, the files
  \<^verbatim>\<open><folder>/messages/<file>\<close> and \<^verbatim>\<open><folder>/tasks/<file>\<close> with their bodies, and
  the files of \<^verbatim>\<open>errors/\<close>. The host is the only process that changes the directory
  while it scans it.
\<close>

datatype kind = Messages | Tasks

type_synonym path = "string \<times> kind \<times> string"

record ipc =
  folders :: "string list"
  pending :: "(path \<times> string) list"
  errors :: "(string \<times> string) list"

text \<open>\<^verbatim>\<open>fs.readdirSync(dir).filter(f => f.endsWith('.json'))\<close>, each file with the body
  that \<^verbatim>\<open>readFileSync\<close> will read.\<close>

definition listDir :: "ipc \<Rightarrow> string \<Rightarrow> kind \<Rightarrow> (string \<times> string) list" where
  "listDir fs g k =
     map (\<lambda>((g', k', f), body). (f, body))
       (filter (\<lambda>((g', k', f), body). g' = g \<and> k' = k \<and> endsWith f ''.json'') (pending fs))"

definition unlinkSync :: "path \<Rightarrow> ipc \<Rightarrow> ipc" where
  "unlinkSync p fs = fs\<lparr>pending := filter (\<lambda>(q, body). q \<noteq> p) (pending fs)\<rparr>"

text \<open>
  The catch block (lines 98 to 100 and 120 to 122): \<^verbatim>\<open>errors/\<close> is made when absent,
  then the file is renamed to \<^verbatim>\<open>errors/<sourceGroup>-<file>\<close>. The new name is longer
  than the name the file has in its mailbox; when it is longer than the file system takes,
  \<^verbatim>\<open>renameSync\<close> throws and the file stays where it is.
\<close>

definition mkdirErrors :: "ipc \<Rightarrow> ipc" where
  "mkdirErrors fs =
     fs\<lparr>folders := (if ''errors'' \<in> set (folders fs) then folders fs else folders fs @ [''errors''])\<rparr>"

definition renameFits :: "platform \<Rightarrow> string \<Rightarrow> string \<Rightarrow> bool" where
  "renameFits P sourceGroup file \<longleftrightarrow> length (sourceGroup @ ''-'' @ file) \<le> NAME_MAX P"

text \<open>The rename that succeeds: the file leaves its mailbox and \<^verbatim>\<open>errors/\<close> holds it,
  in the place of a file of that name if there was one.\<close>

definition renameSync :: "string \<Rightarrow> kind \<Rightarrow> string \<Rightarrow> string \<Rightarrow> ipc \<Rightarrow> ipc" where
  "renameSync sourceGroup k file body fs =
     (unlinkSync (sourceGroup, k, file) fs)
       \<lparr>errors := assign (sourceGroup @ ''-'' @ file) body (errors fs)\<rparr>"

text \<open>The two file-system calls of the catch block. Whether the rename threw is
  \<open>\<not> renameFits P sourceGroup file\<close>.\<close>

definition moveToErrors :: "platform \<Rightarrow> string \<Rightarrow> kind \<Rightarrow> string \<Rightarrow> string \<Rightarrow> ipc \<Rightarrow> ipc" where
  "moveToErrors P sourceGroup k file body fs =
     (if renameFits P sourceGroup file then renameSync sourceGroup k file body (mkdirErrors fs)
      else mkdirErrors fs)"

text \<open>Lines 76 to 94: what the drainer does with the parsed body of a message file.\<close>

definition deliverMessage :: "config \<Rightarrow> platform \<Rightarrow> json \<Rightarrow> string \<Rightarrow> bool \<Rightarrow> host \<Rightarrow> result" where
  "deliverMessage cfg P data sourceGroup isMain st =
     (if data = JNull then Inl (TypeError, st)
      else if field data ''type'' = Some (JStr ''message'') \<and> truthy (field data ''chatJid'') \<and>
              truthy (field data ''text'')
      then
        (case (field data ''chatJid'', field data ''text'') of
           (Some (JStr chatJid), Some txt) \<Rightarrow>
             if startsWith chatJid ''tg:'' then
               if isMain then
                 (let chatId = parseInt10 (replace chatJid ''tg:'' []) in
                  if \<not> isNaN chatId then
                    (case ToString txt of
                       None \<Rightarrow> Inl (TypeError, st)
                     | Some s \<Rightarrow>
                         Inr (logger LogInfo ''IPC Telegram message sent''
                                (snd (sendTelegramMessage P chatId (ASSISTANT_NAME cfg @ '': '' @ s) st))))
                  else Inr (logger LogWarn ''Invalid Telegram chat ID'' st))
               else Inr (logger LogWarn ''Unauthorized Telegram IPC message attempt blocked'' st)
             else Inr (logger LogWarn ''Non-Telegram JID - WhatsApp removed'' st)
         | (Some _, Some _) \<Rightarrow> Inl (TypeError, st)
         | _ \<Rightarrow> Inr st)
      else Inr st)"

text \<open>
  The two loops over the files of a folder (lines 73 to 102 for messages, lines 112 to 124
  for tasks) differ in the directory, in the code they run on the parsed body and in the
  texts they log. The code run on the body is a parameter, so that what the drainer hands
  to it can be stated: the host runs the message loop with \<open>deliverMessage\<close> and the task
  loop with \<open>processTaskIpc\<close>.
\<close>

fun processingError :: "kind \<Rightarrow> string" where
  "processingError Messages = ''Error processing IPC message''"
| "processingError Tasks = ''Error processing IPC task''"

fun directoryError :: "kind \<Rightarrow> string" where
  "directoryError Messages = ''Error reading IPC messages directory''"
| "directoryError Tasks = ''Error reading IPC tasks directory''"

text \<open>
  The body of the loop for one file: the state it leaves, and whether an exception left it
  (the rename of the catch block threw).
\<close>

definition drainFile ::
  "kind \<Rightarrow> (json \<Rightarrow> string \<Rightarrow> bool \<Rightarrow> host \<Rightarrow> result) \<Rightarrow> platform \<Rightarrow> string \<Rightarrow> bool \<Rightarrow>
   string \<times> string \<Rightarrow> ipc \<times> host \<Rightarrow> bool \<times> ipc \<times> host" where
  "drainFile k handler P sourceGroup isMain fb w =
     (case fb of (file, body) \<Rightarrow> case w of (fs, st) \<Rightarrow>
        (case (case JSON_parse P body of
                 None \<Rightarrow> Inl (SyntaxError, st)
               | Some data \<Rightarrow> handler data sourceGroup isMain st) of
           Inr st' \<Rightarrow> (False, unlinkSync (sourceGroup, k, file) fs, st')
         | Inl (e, st') \<Rightarrow>
             (\<not> renameFits P sourceGroup file,
              moveToErrors P sourceGroup k file body fs,
              logger LogError (processingError k) st')))"


definition processTaskFile ::
  "(json \<Rightarrow> string \<Rightarrow> bool \<Rightarrow> host \<Rightarrow> result) \<Rightarrow> platform \<Rightarrow> string \<Rightarrow> bool \<Rightarrow>
   string \<times> string \<Rightarrow> ipc \<times> host \<Rightarrow> ipc \<times> host" where
  "processTaskFile handler P sourceGroup isMain fb w =
     snd (drainFile Tasks handler P sourceGroup isMain fb w)"

text \<open>
  The loop over the files listed. An exception that leaves the body of the loop leaves
  the loop too: the outer catch (lines 104 and 126) logs it and the files that follow in
  the listing are not read in this run.
\<close>

fun drainFiles ::
  "kind \<Rightarrow> (json \<Rightarrow> string \<Rightarrow> bool \<Rightarrow> host \<Rightarrow> result) \<Rightarrow> platform \<Rightarrow> string \<Rightarrow> bool \<Rightarrow>
   (string \<times> string) list \<Rightarrow> ipc \<times> host \<Rightarrow> ipc \<times> host" where
  "drainFiles k handler P sourceGroup isMain [] w = w"
| "drainFiles k handler P sourceGroup isMain (fb # fbs) w =
     (case drainFile k handler P sourceGroup isMain fb w of
        (escaped, fs', st') \<Rightarrow>
          if escaped then (fs', logger LogError (directoryError k) st')
          else drainFiles k handler P sourceGroup isMain fbs (fs', st'))"

text \<open>The body of the loop over group folders (lines 64 to 129).\<close>

definition processGroup ::
  "(json \<Rightarrow> string \<Rightarrow> bool \<Rightarrow> host \<Rightarrow> result) \<Rightarrow> (json \<Rightarrow> string \<Rightarrow> bool \<Rightarrow> host \<Rightarrow> result) \<Rightarrow>
   config \<Rightarrow> platform \<Rightarrow> string \<Rightarrow> ipc \<times> host \<Rightarrow> ipc \<times> host" where
  "processGroup deliver handler cfg P sourceGroup w =
     (let isMain = (sourceGroup = MAIN_GROUP_FOLDER cfg);
          w1 = drainFiles Messages deliver P sourceGroup isMain
                 (listDir (fst w) sourceGroup Messages) w;
          w2 = drainFiles Tasks handler P sourceGroup isMain
                 (listDir (fst w1) sourceGroup Tasks) w1
      in w2)"

text \<open>One run of \<^verbatim>\<open>processIpcFiles\<close>, up to the timer that starts the next one.\<close>

definition drain ::
  "(json \<Rightarrow> string \<Rightarrow> bool \<Rightarrow> host \<Rightarrow> result) \<Rightarrow> (json \<Rightarrow> string \<Rightarrow> bool \<Rightarrow> host \<Rightarrow> result) \<Rightarrow>
   config \<Rightarrow> platform \<Rightarrow> ipc \<times> host \<Rightarrow> ipc \<times> host" where
  "drain deliver handler cfg P w =
     foldl (\<lambda>w' sourceGroup. processGroup deliver handler cfg P sourceGroup w') w
       (filter (\<lambda>f. f \<noteq> ''errors'') (folders (fst w)))"

definition processIpcFiles :: "config \<Rightarrow> platform \<Rightarrow> ipc \<times> host \<Rightarrow> ipc \<times> host" where
  "processIpcFiles cfg P w = drain (deliverMessage cfg P) (processTaskIpc P) cfg P w"

text \<open>The state a call leaves, whether it returned or threw.\<close>

definition state_after :: "result \<Rightarrow> host" where
  "state_after r = (case r of Inl (e, st) \<Rightarrow> st | Inr st \<Rightarrow> st)"

section \<open>Sequences of pairing operations\<close>

text \<open>
  The three functions that write the pairing store, called directly, and the events
  through which the running host reaches them: an incoming Telegram message (the pairing
  check of \<^verbatim>\<open>handleMessage\<close>), an approval and a denial.
\<close>

datatype pairing_call =
    CallRequestApproval jsnum "string option" "string option" "string option"
  | CallApproveUser jsnum "string option"
  | CallDenyUser jsnum

fun run_call :: "platform \<Rightarrow> host \<Rightarrow> pairing_call \<Rightarrow> host" where
  "run_call P st (CallRequestApproval u n f m) = requestApproval P u n f m st"
| "run_call P st (CallApproveUser u a) = snd (approveUser P u a st)"
| "run_call P st (CallDenyUser u) = snd (denyUser P u st)"

datatype pairing_event =
    IncomingMessage jsnum "string option" "string option" string
  | Approval jsnum "string option"
  | Denial jsnum

fun run_event :: "platform \<Rightarrow> host \<Rightarrow> pairing_event \<Rightarrow> host" where
  "run_event P st (IncomingMessage u n f m) = handleMessage_pairing P u n f m st"
| "run_event P st (Approval u a) = snd (approveUser P u a st)"
| "run_event P st (Denial u) = snd (denyUser P u st)"

section \<open>A concrete host, for the examples\<close>

definition example_config :: config where
  "example_config = \<lparr>MAIN_GROUP_FOLDER = ''main'', ASSISTANT_NAME = ''m87''\<rparr>"

definition schedule_interval_request :: json where
  "schedule_interval_request =
     JObj [(''type'', JStr ''schedule_task''), (''prompt'', JStr ''ping''),
           (''schedule_type'', JStr ''interval''), (''schedule_value'', JStr ''60000''),
           (''groupFolder'', JStr ''alpha''), (''context_mode'', JStr ''shared'')]"

definition schedule_without_target :: json where
  "schedule_without_target =
     JObj [(''type'', JStr ''schedule_task''), (''prompt'', JStr ''ping''),
           (''schedule_type'', JStr ''interval''), (''schedule_value'', JStr ''60000''),
           (''chatJid'', JStr ''tg:100'')]"

definition schedule_for_beta :: json where
  "schedule_for_beta =
     JObj [(''type'', JStr ''schedule_task''), (''prompt'', JStr ''ping''),
           (''schedule_type'', JStr ''interval''), (''schedule_value'', JStr ''60000''),
           (''groupFolder'', JStr ''beta''), (''chatJid'', JStr ''tg:200'')]"

definition schedule_once_request :: json where
  "schedule_once_request =
     JObj [(''type'', JStr ''schedule_task''), (''prompt'', JStr ''ping''),
           (''schedule_type'', JStr ''once''), (''schedule_value'', JStr ''2020-01-01T00:00:00.000Z''),
           (''groupFolder'', JStr ''alpha''), (''chatJid'', JStr ''tg:100'')]"

definition schedule_far_interval :: json where
  "schedule_far_interval =
     JObj [(''type'', JStr ''schedule_task''), (''prompt'', JStr ''ping''),
           (''schedule_type'', JStr ''interval''), (''schedule_value'', JStr ''9000000000000000''),
           (''groupFolder'', JStr ''main''), (''chatJid'', JStr ''tg:100'')]"

definition pause_request :: json where
  "pause_request = JObj [(''type'', JStr ''pause_task''), (''taskId'', JStr ''task-1-abcdef'')]"

definition approve_request :: json where
  "approve_request = JObj [(''type'', JStr ''telegram_approve''), (''userId'', JNum 7)]"

text \<open>An approval request whose body names the main group as its own.\<close>

definition forged_request :: json where
  "forged_request =
     JObj [(''type'', JStr ''telegram_approve''), (''userId'', JNum 7),
           (''groupFolder'', JStr ''main''), (''isMain'', JBool True)]"

definition message_request :: json where
  "message_request =
     JObj [(''type'', JStr ''message''), (''chatJid'', JStr ''tg:100''), (''text'', JStr ''hello'')]"

definition example_platform :: platform where
  "example_platform =
     \<lparr>JSON_parse = map_of
        [(''{type:schedule_task,prompt:ping,schedule_type:interval,schedule_value:60000,groupFolder:alpha,context_mode:shared}'',
          schedule_interval_request),
         (''{type:schedule_task,prompt:ping,schedule_type:interval,schedule_value:60000,groupFolder:beta,chatJid:tg:200}'',
          schedule_for_beta),
         (''{type:telegram_approve,userId:7}'', approve_request),
         (''{type:telegram_approve,userId:7,groupFolder:main,isMain:true}'', forged_request),
         (''{type:message,chatJid:tg:100,text:hello}'', message_request),
         (''null'', JNull)],
      cron_next = (\<lambda>v. if v = JStr ''0 9 * * 1'' then Some 1762765200000 else None),
      Date_parse = (\<lambda>s. if s = ''2020-01-01T00:00:00.000Z'' then Some 1577836800000 else None),
      Number_of_string = (\<lambda>s. if s = ''7'' then Num 7 else NaN),
      Date_now = (\<lambda>l. 1762000000000),
      Math_random36 = ''k3x9qa'',
      telegram_accepts = (\<lambda>chatId text markdown. True),
      NAME_MAX = 255\<rparr>"

definition example_host :: host where
  "example_host =
     \<lparr>tasks = [\<lparr>task_id = ''task-1-abcdef'', group_folder = JStr ''beta'', chat_jid = JStr ''tg:200'',
                 prompt = JStr ''report'', schedule_type = JStr ''once'',
                 schedule_value = JStr ''2020-01-01T00:00:00.000Z'', context_mode = ''isolated'',
                 next_run = Some 1577836800000, status = ''active'', created_at = 1577000000000\<rparr>],
      registeredGroups =
        [(''tg:100'', \<lparr>name = JStr ''Alpha'', folder = JStr ''alpha'', trigger = JStr ''@m87'',
                       added_at = 1577000000000, containerConfig = None\<rparr>)],
      groupDirs = [''alpha''],
      pairedUsers = Map.empty,
      pendingApprovals = Map.empty,
      bot = True,
      outbox = [],
      logs = []\<rparr>"

definition example_ipc :: ipc where
  "example_ipc =
     \<lparr>folders = [''alpha'', ''errors'', ''main''],
      pending =
        [((''alpha'', Tasks, ''1.json''), ''{type:telegram_approve,userId:7}''),
         ((''alpha'', Tasks, ''2.json''), ''{type:schedule_task,prompt:ping''),
         ((''alpha'', Messages, ''3.json''), ''{type:message,chatJid:tg:100,text:hello}''),
         ((''main'', Messages, ''4.json''), ''{type:message,chatJid:tg:100,text:hello}''),
         ((''alpha'', Messages, ''5.json''), ''null''),
         ((''alpha'', Tasks, ''6.json''), ''{type:telegram_approve,userId:7,groupFolder:main,isMain:true}'')],
      errors = []\<rparr>"

text \<open>
  A handler and a delivery function that differ from \<open>processTaskIpc\<close> and
  \<open>deliverMessage\<close> where the flag is not the one the folder gives (there they do what
  the code does under the opposite flag); the handler differs also where the approval
  request that lies in the folder of tenant alpha and names the main group in its body is
  handed over as one of the main group, which it leaves without effect.
\<close>

definition misled_handler :: "json \<Rightarrow> string \<Rightarrow> bool \<Rightarrow> host \<Rightarrow> result" where
  "misled_handler data g m st =
     (if data = forged_request \<and> g = ''main'' then Inr st
      else if m = (g = MAIN_GROUP_FOLDER example_config)
      then processTaskIpc example_platform data g m st
      else processTaskIpc example_platform data g (\<not> m) st)"

definition misled_deliver :: "json \<Rightarrow> string \<Rightarrow> bool \<Rightarrow> host \<Rightarrow> result" where
  "misled_deliver data g m st =
     (if m = (g = MAIN_GROUP_FOLDER example_config)
      then deliverMessage example_config example_platform data g m st
      else deliverMessage example_config example_platform data g (\<not> m) st)"

text \<open>
  A mailbox of tenant alpha with a task file whose name has 250 characters and whose body
  is cut short, listed before a second task file.
\<close>

definition long_name :: string where
  "long_name = ''xxxxxxxxxxxxxxxxxxxxxxxxxxxxxxxxxxxxxxxxxxxxxxxxxxxxxxxxxxxxxxxxxxxxxxxxxxxxxxxxxxxxxxxxxxxxxxxxxxxxxxxxxxxxxxxxxxxxxxxxxxxxxxxxxxxxxxxxxxxxxxxxxxxxxxxxxxxxxxxxxxxxxxxxxxxxxxxxxxxxxxxxxxxxxxxxxxxxxxxxxxxxxxxxxxxxxxxxxxxxxxxxxxxxxxxxxxxxxxxxxxxxx.json''"

definition stuck_ipc :: ipc where
  "stuck_ipc =
     \<lparr>folders = [''alpha'', ''main''],
      pending =
        [((''alpha'', Tasks, long_name), ''{type:schedule_task,prompt:ping''),
         ((''alpha'', Tasks, ''y.json''), ''{type:telegram_approve,userId:7}'')],
      errors = []\<rparr>"

section \<open>Splitting long Telegram messages\<close>

lemma sendChunks_all:
  assumes acc: "\<And>c. telegram_accepts P chatId c False"
  shows "\<exists>sent. sendChunks P chatId msg i st = Inr (st\<lparr>outbox := outbox st @ sent\<rparr>) \<and>
           concat (map (\<lambda>m. fst (snd m)) sent) = drop i msg \<and>
           (\<forall>m \<in> set sent. fst m = chatId \<and> length (fst (snd m)) \<le> maxLen)"
  using acc
proof (induction P chatId msg i st rule: sendChunks.induct)
  case (1 P chatId msg i st)
  show ?case
  proof (cases "i < length msg")
    case False
    then have "sendChunks P chatId msg i st = Inr st" by (subst sendChunks.simps) simp
    moreover have "st = st\<lparr>outbox := outbox st @ []\<rparr>" by simp
    ultimately show ?thesis using False
      by (intro exI[of _ "[]"]) auto
  next
    case True
    define c where "c = slice msg i (i + maxLen)"
    define st1 where "st1 = st\<lparr>outbox := outbox st @ [(chatId, c, False)]\<rparr>"
    have send: "telegram_sendMessage P chatId c False st = Inr st1"
      using "1.prems" by (simp add: telegram_sendMessage_def st1_def)
    from "1.IH"[OF True send[unfolded c_def] "1.prems"]
    obtain sent where
      r: "sendChunks P chatId msg (i + maxLen) st1 = Inr (st1\<lparr>outbox := outbox st1 @ sent\<rparr>)"
      and cc: "concat (map (\<lambda>m. fst (snd m)) sent) = drop (i + maxLen) msg"
      and b: "\<forall>m \<in> set sent. fst m = chatId \<and> length (fst (snd m)) \<le> maxLen"
      by blast
    have step: "sendChunks P chatId msg i st = sendChunks P chatId msg (i + maxLen) st1"
      using True send by (subst sendChunks.simps) (simp add: c_def)
    have eq: "st1\<lparr>outbox := outbox st1 @ sent\<rparr> = st\<lparr>outbox := outbox st @ ((chatId, c, False) # sent)\<rparr>"
      by (simp add: st1_def)
    have cat: "c @ drop (i + maxLen) msg = drop i msg"
      by (simp add: c_def slice_def add.commute) (metis append_take_drop_id drop_drop)
    have len: "length c \<le> maxLen" by (simp add: c_def slice_def)
    show ?thesis
      by (intro exI[of _ "(chatId, c, False) # sent"]) (simp add: step r eq cc cat len b)
  qed
qed

text \<open>
  C10. With the bot started and the Telegram API accepting plain sends to the chat,
  \<open>sendTelegramMessage\<close> returns true and the texts it delivers are to that chat, have at
  most 4000 characters each and concatenate, in order, to the text it was given; a text of
  at most 4000 characters is delivered as that one message (in Markdown mode, or plain
  when the API refuses the Markdown send). \<open>sendTelegramResponse\<close> does the same with the
  replies to its chat.
\<close>

theorem sendTelegram_split:
  assumes started: "bot st"
    and acc: "\<And>c. telegram_accepts P chatId c False"
  shows "(\<exists>sent. outbox (snd (sendTelegramMessage P chatId msg st)) = outbox st @ sent \<and>
           fst (sendTelegramMessage P chatId msg st) \<and>
           concat (map (\<lambda>m. fst (snd m)) sent) = msg \<and>
           (\<forall>m \<in> set sent. fst m = chatId \<and> length (fst (snd m)) \<le> 4000) \<and>
           (length msg \<le> 4000 \<longrightarrow> map (\<lambda>m. fst (snd m)) sent = [msg])) \<and>
         (\<exists>sent. map_sum fst outbox (sendTelegramResponse P chatId msg st) = Inr (outbox st @ sent) \<and>
           concat (map (\<lambda>m. fst (snd m)) sent) = msg \<and>
           (\<forall>m \<in> set sent. fst m = chatId \<and> length (fst (snd m)) \<le> 4000) \<and>
           (length msg \<le> 4000 \<longrightarrow> map (\<lambda>m. fst (snd m)) sent = [msg]))"
proof
  show "\<exists>sent. outbox (snd (sendTelegramMessage P chatId msg st)) = outbox st @ sent \<and>
           fst (sendTelegramMessage P chatId msg st) \<and>
           concat (map (\<lambda>m. fst (snd m)) sent) = msg \<and>
           (\<forall>m \<in> set sent. fst m = chatId \<and> length (fst (snd m)) \<le> 4000) \<and>
           (length msg \<le> 4000 \<longrightarrow> map (\<lambda>m. fst (snd m)) sent = [msg])"
  proof (cases "length msg \<le> maxLen")
    case True
    show ?thesis
      using True started acc[of msg]
      by (intro exI[of _ "[(chatId, msg, telegram_accepts P chatId msg True)]"])
         (auto simp: sendTelegramMessage_def telegram_sendMessage_def logger_def maxLen_def)
  next
    case False
    from sendChunks_all[of P chatId msg 0 st, OF acc]
    obtain sent where
      r: "sendChunks P chatId msg 0 st = Inr (st\<lparr>outbox := outbox st @ sent\<rparr>)"
      and cc: "concat (map (\<lambda>m. fst (snd m)) sent) = msg"
      and b: "\<forall>m \<in> set sent. fst m = chatId \<and> length (fst (snd m)) \<le> maxLen"
      by auto
    show ?thesis
      using False started r cc b
      by (intro exI[of _ sent]) (auto simp: sendTelegramMessage_def logger_def maxLen_def)
  qed
  show "\<exists>sent. map_sum fst outbox (sendTelegramResponse P chatId msg st) = Inr (outbox st @ sent) \<and>
           concat (map (\<lambda>m. fst (snd m)) sent) = msg \<and>
           (\<forall>m \<in> set sent. fst m = chatId \<and> length (fst (snd m)) \<le> 4000) \<and>
           (length msg \<le> 4000 \<longrightarrow> map (\<lambda>m. fst (snd m)) sent = [msg])"
  proof (cases "length msg \<le> maxLen")
    case True
    show ?thesis
      using True acc[of msg]
      by (intro exI[of _ "[(chatId, msg, telegram_accepts P chatId msg True)]"])
         (auto simp: sendTelegramResponse_def telegram_sendMessage_def maxLen_def)
  next
    case False
    from sendChunks_all[of P chatId msg 0 st, OF acc]
    obtain sent where
      r: "sendChunks P chatId msg 0 st = Inr (st\<lparr>outbox := outbox st @ sent\<rparr>)"
      and cc: "concat (map (\<lambda>m. fst (snd m)) sent) = msg"
      and b: "\<forall>m \<in> set sent. fst m = chatId \<and> length (fst (snd m)) \<le> maxLen"
      by auto
    show ?thesis
      using False r cc b
      by (intro exI[of _ sent]) (auto simp: sendTelegramResponse_def maxLen_def)
  qed
qed

text \<open>The theorem at a text of 4001 characters, on the example host.\<close>

theorem sendTelegram_split_witness:
  "bot example_host \<and> (\<forall>c. telegram_accepts example_platform (Num 42) c False) \<and>
   (\<exists>sent. outbox (snd (sendTelegramMessage example_platform (Num 42)
                          (replicate 4001 (CHR ''a'')) example_host)) = outbox example_host @ sent \<and>
      concat (map (\<lambda>m. fst (snd m)) sent) = replicate 4001 (CHR ''a'') \<and>
      (\<forall>m \<in> set sent. fst m = Num 42 \<and> length (fst (snd m)) \<le> 4000))"
proof -
  have h1: "bot example_host" by (simp add: example_host_def)
  have h2: "\<And>c. telegram_accepts example_platform (Num 42) c False"
    by (simp add: example_platform_def)
  from sendTelegram_split[OF h1 h2, of "replicate 4001 (CHR ''a'')"] h1 h2
  show ?thesis by blast
qed

section \<open>The pairing store\<close>

lemma approveUser_store:
  "pairedUsers (snd (approveUser P u a st)) u \<noteq> None \<and>
   pendingApprovals (snd (approveUser P u a st)) u = None"
  by (auto simp: approveUser_def notifyUser_def telegram_sendMessage_def logger_def Let_def)

lemma denyUser_store:
  "pendingApprovals (snd (denyUser P u st)) u = None \<and>
   pairedUsers (snd (denyUser P u st)) = pairedUsers st"
  by (auto simp: denyUser_def notifyUser_def telegram_sendMessage_def logger_def)

lemma approveUser_dom:
  "dom (pairedUsers (snd (approveUser P u a st))) = insert u (dom (pairedUsers st))"
  "dom (pendingApprovals (snd (approveUser P u a st))) = dom (pendingApprovals st) - {u}"
  by (auto simp: approveUser_def notifyUser_def telegram_sendMessage_def logger_def Let_def split: if_splits)

lemma denyUser_dom:
  "dom (pairedUsers (snd (denyUser P u st))) = dom (pairedUsers st)"
  "dom (pendingApprovals (snd (denyUser P u st))) = dom (pendingApprovals st) - {u}"
  by (auto simp: denyUser_def notifyUser_def telegram_sendMessage_def logger_def split: if_splits)

lemma handleMessage_pairing_dom:
  "dom (pairedUsers (handleMessage_pairing P u n f m st)) = dom (pairedUsers st)"
  "dom (pendingApprovals (handleMessage_pairing P u n f m st)) \<subseteq> dom (pendingApprovals st) \<union> ({u} - dom (pairedUsers st))"
  by (auto simp: handleMessage_pairing_def requestApproval_def isUserPaired_def hasPendingApproval_def logger_def split: if_splits)

lemma run_event_disjoint:
  assumes "dom (pendingApprovals st) \<inter> dom (pairedUsers st) = {}"
  shows "dom (pendingApprovals (run_event P st ev)) \<inter> dom (pairedUsers (run_event P st ev)) = {}"
proof (cases ev)
  case (IncomingMessage u n f m)
  have "dom (pairedUsers (run_event P st ev)) = dom (pairedUsers st)"
    and "dom (pendingApprovals (run_event P st ev)) \<subseteq>
           dom (pendingApprovals st) \<union> ({u} - dom (pairedUsers st))"
    unfolding IncomingMessage run_event.simps by (rule handleMessage_pairing_dom)+
  with assms show ?thesis by blast
next
  case (Approval u a)
  have "dom (pairedUsers (run_event P st ev)) = insert u (dom (pairedUsers st))"
    and "dom (pendingApprovals (run_event P st ev)) = dom (pendingApprovals st) - {u}"
    unfolding Approval run_event.simps by (rule approveUser_dom)+
  with assms show ?thesis by blast
next
  case (Denial u)
  have "dom (pairedUsers (run_event P st ev)) = dom (pairedUsers st)"
    and "dom (pendingApprovals (run_event P st ev)) = dom (pendingApprovals st) - {u}"
    unfolding Denial run_event.simps by (rule denyUser_dom)+
  with assms show ?thesis by blast
qed

lemma run_events_disjoint:
  "dom (pendingApprovals st) \<inter> dom (pairedUsers st) = {} \<Longrightarrow>
   dom (pendingApprovals (foldl (run_event P) st evs)) \<inter> dom (pairedUsers (foldl (run_event P) st evs)) = {}"
proof (induction evs arbitrary: st)
  case Nil
  then show ?case by simp
next
  case (Cons ev evs)
  from Cons.IH[OF run_event_disjoint[OF Cons.prems]] show ?case by simp
qed

text \<open>
  C8, as amended. \<open>approveUser\<close> leaves the user paired and not pending; \<open>denyUser\<close>
  leaves the user not pending and the paired store as it was; and from a state in which
  no user is both pending and paired, no sequence of incoming messages (which reach
  \<open>requestApproval\<close> only for a sender who is not paired), approvals and denials leads to
  a state in which a user is both.
\<close>

theorem pairing_store_exclusive:
  "pairedUsers (snd (approveUser P u a st)) u \<noteq> None \<and>
   pendingApprovals (snd (approveUser P u a st)) u = None \<and>
   pendingApprovals (snd (denyUser P u st)) u = None \<and>
   pairedUsers (snd (denyUser P u st)) = pairedUsers st \<and>
   (dom (pendingApprovals st) \<inter> dom (pairedUsers st) = {} \<longrightarrow>
    dom (pendingApprovals (foldl (run_event P) st evs)) \<inter>
    dom (pairedUsers (foldl (run_event P) st evs)) = {})"
  using approveUser_store[of P u a st] denyUser_store[of P u st] run_events_disjoint[of st P evs]
  by blast

text \<open>
  C8, as stated, fails for the three functions called directly: \<open>requestApproval\<close> tests
  the pending store only, so after \<open>approveUser\<close> it files a request for a paired user.
\<close>

theorem pairing_store_counterexample:
  "Num 7 \<in> dom (pendingApprovals (foldl (run_call example_platform) example_host
                   [CallApproveUser (Num 7) (Some ''main''), CallRequestApproval (Num 7) None None (Some ''hi'')])) \<and>
   Num 7 \<in> dom (pairedUsers (foldl (run_call example_platform) example_host
                   [CallApproveUser (Num 7) (Some ''main''), CallRequestApproval (Num 7) None None (Some ''hi'')]))"
  by (simp add: example_host_def example_platform_def approveUser_def requestApproval_def
        notifyUser_def telegram_sendMessage_def logger_def Let_def)

text \<open>The theorem on the example host: a request, its approval, a further message and a
  denial.\<close>

theorem pairing_store_exclusive_witness:
  "dom (pendingApprovals example_host) \<inter> dom (pairedUsers example_host) = {} \<and>
   dom (pendingApprovals (foldl (run_event example_platform) example_host
          [IncomingMessage (Num 7) None None ''hi'', Approval (Num 7) (Some ''main''),
           IncomingMessage (Num 7) None None ''again'', Denial (Num 7)])) \<inter>
   dom (pairedUsers (foldl (run_event example_platform) example_host
          [IncomingMessage (Num 7) None None ''hi'', Approval (Num 7) (Some ''main''),
           IncomingMessage (Num 7) None None ''again'', Denial (Num 7)])) = {} \<and>
   pairedUsers (foldl (run_event example_platform) example_host
          [IncomingMessage (Num 7) None None ''hi'', Approval (Num 7) (Some ''main''),
           IncomingMessage (Num 7) None None ''again'', Denial (Num 7)]) (Num 7) \<noteq> None"
proof -
  have h: "dom (pendingApprovals example_host) \<inter> dom (pairedUsers example_host) = {}"
    by (simp add: example_host_def)
  have p: "pairedUsers (foldl (run_event example_platform) example_host
          [IncomingMessage (Num 7) None None ''hi'', Approval (Num 7) (Some ''main''),
           IncomingMessage (Num 7) None None ''again'', Denial (Num 7)]) (Num 7) \<noteq> None"
    by (simp add: example_host_def example_platform_def approveUser_def requestApproval_def denyUser_def
        handleMessage_pairing_def isUserPaired_def hasPendingApproval_def
        notifyUser_def telegram_sendMessage_def logger_def Let_def)
  from pairing_store_exclusive[of example_platform "Num 7" "Some ''main''" example_host] h p
  show ?thesis by blast
qed

section \<open>The control-request handler: authorisation and scheduling\<close>

lemmas handler_defs =
  processTaskIpc_def schedule_task_def targetJid_of_def computeNextRun_def insertTask_def
  createTask_def field_def logger_def parseInt_def parseInt10_def isWhiteSpace_def isDigit_def
  digitVal_def validTime_def newDate_def state_after_def

lemma field_not_null: "field data k = Some v \<Longrightarrow> data \<noteq> JNull"
  by (auto simp: field_def)

lemma processTaskIpc_dispatch:
  "field data ''type'' = Some (JStr ''schedule_task'') \<Longrightarrow>
     processTaskIpc P data sg m st = schedule_task P data sg m st"
  "field data ''type'' = Some (JStr ''pause_task'') \<Longrightarrow>
     processTaskIpc P data sg m st = pause_task data sg m st"
  "field data ''type'' = Some (JStr ''resume_task'') \<Longrightarrow>
     processTaskIpc P data sg m st = resume_task data sg m st"
  "field data ''type'' = Some (JStr ''cancel_task'') \<Longrightarrow>
     processTaskIpc P data sg m st = cancel_task data sg m st"
  "field data ''type'' = Some (JStr ''register_group'') \<Longrightarrow>
     processTaskIpc P data sg m st = register_group P data sg m st"
  "field data ''type'' = Some (JStr ''telegram_approve'') \<Longrightarrow>
     processTaskIpc P data sg m st = telegram_approve P data sg m st"
  "field data ''type'' = Some (JStr ''telegram_deny'') \<Longrightarrow>
     processTaskIpc P data sg m st = telegram_deny P data sg m st"
  by (auto simp: processTaskIpc_def dest: field_not_null)

lemma tasks_logger: "tasks (logger l m st) = tasks st"
  by (simp add: logger_def)

lemma tasks_insertTask:
  "tasks (insertTask P data sg g jid nr st) =
     tasks st @
     [\<lparr>task_id = ''task-'' @ show_int (Date_now P 208) @ ''-'' @ Math_random36 P,
       group_folder = g, chat_jid = jid,
       prompt = (case field data ''prompt'' of Some p \<Rightarrow> p | None \<Rightarrow> JNull),
       schedule_type = (case field data ''schedule_type'' of Some t \<Rightarrow> t | None \<Rightarrow> JNull),
       schedule_value = (case field data ''schedule_value'' of Some v \<Rightarrow> v | None \<Rightarrow> JNull),
       context_mode = (if field data ''context_mode'' = Some (JStr ''group'') then ''group'' else ''isolated''),
       next_run = nr, status = ''active'', created_at = Date_now P 222\<rparr>]"
  by (simp add: insertTask_def createTask_def logger_def Let_def)

lemma schedule_task_no_target:
  "\<not> truthy (field data ''groupFolder'') \<Longrightarrow> schedule_task P data sg m st = Inr st"
  by (simp add: schedule_task_def)

lemma schedule_task_outcomes:
  "tasks (state_after (schedule_task P data sg m st)) = tasks st \<or>
   (\<exists>g jid nr. schedule_task P data sg m st = Inr (insertTask P data sg g jid nr st))"
  by (auto simp: schedule_task_def state_after_def tasks_logger
      split: option.split next_run_result.split)

lemma schedule_task_not_next:
  assumes "field data ''schedule_value'' = Some v"
    and "\<And>nr. computeNextRun P (field data ''schedule_type'') v \<noteq> NextRun nr"
  shows "tasks (state_after (schedule_task P data sg m st)) = tasks st"
  using assms
  by (simp add: schedule_task_def state_after_def tasks_logger
      split: option.split next_run_result.split)

lemma computeNextRun_invalid_cron:
  "cron_next P v = None \<Longrightarrow> computeNextRun P (Some (JStr ''cron'')) v \<noteq> NextRun nr"
  by (simp add: computeNextRun_def)

lemma computeNextRun_invalid_interval:
  "\<not> (\<exists>ms. parseInt v = Some (Num ms) \<and> 0 < ms) \<Longrightarrow>
   computeNextRun P (Some (JStr ''interval'')) v \<noteq> NextRun nr"
  by (auto simp: computeNextRun_def split: option.split jsnum.split)

lemma computeNextRun_invalid_once:
  "\<not> (\<exists>t. newDate P v = Inr (Some t)) \<Longrightarrow>
   computeNextRun P (Some (JStr ''once'')) v \<noteq> NextRun nr"
  by (auto simp: computeNextRun_def split: option.split sum.split)

lemma computeNextRun_valid:
  assumes "(ty = Some (JStr ''cron'') \<and> cron_next P v = Some t) \<or>
         (ty = Some (JStr ''interval'') \<and>
            (\<exists>ms. parseInt v = Some (Num ms) \<and> 0 < ms \<and> validTime (Date_now P 198 + ms) \<and>
               t = Date_now P 198 + ms)) \<or>
         (ty = Some (JStr ''once'') \<and> newDate P v = Inr (Some t))"
  shows "computeNextRun P ty v = NextRun (Some t) \<and> truthy ty"
  using assms by (auto simp: computeNextRun_def)

lemma schedule_task_valid:
  assumes "truthy (field data ''prompt'')" "truthy (field data ''schedule_type'')"
    and "field data ''schedule_value'' = Some v" "truthy (Some v)"
    and "field data ''groupFolder'' = Some g" "truthy (Some g)"
    and "m \<or> g = JStr sg"
    and "targetJid_of data g st = Some jid" "truthy (Some jid)"
    and "computeNextRun P (field data ''schedule_type'') v = NextRun nr"
  shows "schedule_task P data sg m st = Inr (insertTask P data sg g jid nr st)"
  using assms
  by (auto simp: schedule_task_def)

text \<open>
  C4, as stated, fails: a request with a prompt, a schedule type, a schedule value and a
  destination but no \<^verbatim>\<open>groupFolder\<close> creates no task, from an ordinary tenant and from
  the main tenant alike.
\<close>

theorem schedule_without_target_counterexample:
  "processTaskIpc example_platform schedule_without_target ''alpha'' False example_host =
     Inr example_host \<and>
   processTaskIpc example_platform schedule_without_target ''main'' True example_host =
     Inr example_host"
  by (simp add: handler_defs schedule_without_target_def)

text \<open>
  C4, as amended. A \<^verbatim>\<open>schedule_task\<close> request whose \<^verbatim>\<open>groupFolder\<close> is absent (or
  falsy) returns at once and leaves the host state as it was: the handler has no default
  for the target. A request that names the source tenant itself as the target, with a
  prompt, a schedule type, a schedule value for which the first fire time is computed and
  a destination given or found in the registry, inserts one row owned by the source
  tenant, elevated or not.
\<close>

theorem schedule_task_target_required:
  "(field data ''type'' = Some (JStr ''schedule_task'') \<and> \<not> truthy (field data ''groupFolder'')
      \<longrightarrow> processTaskIpc P data sourceGroup isMain st = Inr st) \<and>
   (field data ''type'' = Some (JStr ''schedule_task'') \<and>
    field data ''groupFolder'' = Some (JStr sourceGroup) \<and> sourceGroup \<noteq> [] \<and>
    truthy (field data ''prompt'') \<and> truthy (field data ''schedule_type'') \<and>
    field data ''schedule_value'' = Some v \<and> truthy (Some v) \<and>
    targetJid_of data (JStr sourceGroup) st = Some jid \<and> truthy (Some jid) \<and>
    computeNextRun P (field data ''schedule_type'') v = NextRun nr
      \<longrightarrow> (\<exists>st' row. processTaskIpc P data sourceGroup isMain st = Inr st' \<and>
             tasks st' = tasks st @ [row] \<and> group_folder row = JStr sourceGroup))"
proof (intro conjI impI)
  assume "field data ''type'' = Some (JStr ''schedule_task'') \<and> \<not> truthy (field data ''groupFolder'')"
  then show "processTaskIpc P data sourceGroup isMain st = Inr st"
    by (simp add: processTaskIpc_dispatch(1) schedule_task_no_target)
next
  assume a: "field data ''type'' = Some (JStr ''schedule_task'') \<and>
    field data ''groupFolder'' = Some (JStr sourceGroup) \<and> sourceGroup \<noteq> [] \<and>
    truthy (field data ''prompt'') \<and> truthy (field data ''schedule_type'') \<and>
    field data ''schedule_value'' = Some v \<and> truthy (Some v) \<and>
    targetJid_of data (JStr sourceGroup) st = Some jid \<and> truthy (Some jid) \<and>
    computeNextRun P (field data ''schedule_type'') v = NextRun nr"
  then have "schedule_task P data sourceGroup isMain st =
      Inr (insertTask P data sourceGroup (JStr sourceGroup) jid nr st)"
    by (intro schedule_task_valid[where v = v]) auto
  with a have "processTaskIpc P data sourceGroup isMain st =
      Inr (insertTask P data sourceGroup (JStr sourceGroup) jid nr st)"
    by (simp add: processTaskIpc_dispatch(1))
  then show "\<exists>st' row. processTaskIpc P data sourceGroup isMain st = Inr st' \<and>
             tasks st' = tasks st @ [row] \<and> group_folder row = JStr sourceGroup"
    by (simp add: tasks_insertTask)
qed

text \<open>The theorem on the example host: the request without a target, and the request of
  tenant alpha for itself, whose destination is found in the registry.\<close>

theorem schedule_task_target_required_witness:
  "field schedule_without_target ''type'' = Some (JStr ''schedule_task'') \<and>
   \<not> truthy (field schedule_without_target ''groupFolder'') \<and>
   processTaskIpc example_platform schedule_without_target ''alpha'' False example_host =
     Inr example_host \<and>
   targetJid_of schedule_interval_request (JStr ''alpha'') example_host = Some (JStr ''tg:100'') \<and>
   computeNextRun example_platform (field schedule_interval_request ''schedule_type'') (JStr ''60000'') =
     NextRun (Some 1762000060000) \<and>
   (\<exists>st' row. processTaskIpc example_platform schedule_interval_request ''alpha'' False example_host = Inr st' \<and>
      tasks st' = tasks example_host @ [row] \<and> group_folder row = JStr ''alpha'')"
proof -
  have h1: "field schedule_without_target ''type'' = Some (JStr ''schedule_task'') \<and>
            \<not> truthy (field schedule_without_target ''groupFolder'')"
    by (simp add: schedule_without_target_def field_def)
  have h2: "targetJid_of schedule_interval_request (JStr ''alpha'') example_host = Some (JStr ''tg:100'')"
    by (simp add: targetJid_of_def schedule_interval_request_def field_def example_host_def)
  have h3: "computeNextRun example_platform (field schedule_interval_request ''schedule_type'') (JStr ''60000'') =
     NextRun (Some 1762000060000)"
    by (simp add: handler_defs schedule_interval_request_def example_platform_def)
  have h4: "field schedule_interval_request ''type'' = Some (JStr ''schedule_task'') \<and>
    field schedule_interval_request ''groupFolder'' = Some (JStr ''alpha'') \<and> ''alpha'' \<noteq> [] \<and>
    truthy (field schedule_interval_request ''prompt'') \<and> truthy (field schedule_interval_request ''schedule_type'') \<and>
    field schedule_interval_request ''schedule_value'' = Some (JStr ''60000'') \<and> truthy (Some (JStr ''60000'')) \<and>
    truthy (Some (JStr ''tg:100''))"
    by (simp add: schedule_interval_request_def field_def)
  from schedule_task_target_required[where data = schedule_without_target and P = example_platform
      and sourceGroup = "''alpha''" and isMain = False and st = example_host]
    schedule_task_target_required[where data = schedule_interval_request and P = example_platform
      and sourceGroup = "''alpha''" and isMain = False and st = example_host
      and v = "JStr ''60000''" and jid = "JStr ''tg:100''" and nr = "Some 1762000060000"]
    h1 h2 h3 h4
  show ?thesis by blast
qed

lemma schedule_task_blocked:
  assumes "field data ''groupFolder'' = Some g" "g \<noteq> JStr sourceGroup"
  shows "schedule_task P data sourceGroup False st = Inr st \<or>
         schedule_task P data sourceGroup False st =
           Inr (logger LogWarn ''Unauthorized schedule_task attempt blocked'' st)"
  using assms by (simp add: schedule_task_def split: option.split)

lemma pause_task_blocked:
  assumes "field data ''taskId'' = Some tid" "getTaskById tid st = Some t"
    "group_folder t \<noteq> JStr sourceGroup"
  shows "pause_task data sourceGroup False st = Inr st \<or>
         pause_task data sourceGroup False st =
           Inr (logger LogWarn ''Unauthorized task pause attempt'' st)"
  using assms by (simp add: pause_task_def split: bool.split)

lemma resume_task_blocked:
  assumes "field data ''taskId'' = Some tid" "getTaskById tid st = Some t"
    "group_folder t \<noteq> JStr sourceGroup"
  shows "resume_task data sourceGroup False st = Inr st \<or>
         resume_task data sourceGroup False st =
           Inr (logger LogWarn ''Unauthorized task resume attempt'' st)"
  using assms by (simp add: resume_task_def split: bool.split)

lemma cancel_task_blocked:
  assumes "field data ''taskId'' = Some tid" "getTaskById tid st = Some t"
    "group_folder t \<noteq> JStr sourceGroup"
  shows "cancel_task data sourceGroup False st = Inr st \<or>
         cancel_task data sourceGroup False st =
           Inr (logger LogWarn ''Unauthorized task cancel attempt'' st)"
  using assms by (simp add: cancel_task_def split: bool.split)

lemma privileged_blocked:
  "register_group P data sourceGroup False st =
     Inr (logger LogWarn ''Unauthorized register_group attempt blocked'' st)"
  "telegram_approve P data sourceGroup False st =
     Inr (logger LogWarn ''Unauthorized telegram_approve attempt blocked'' st)"
  "telegram_deny P data sourceGroup False st =
     Inr (logger LogWarn ''Unauthorized telegram_deny attempt blocked'' st)"
  by (simp_all add: register_group_def telegram_approve_def telegram_deny_def)

lemma unchanged_or_warned:
  assumes "r = Inr st \<or> r = Inr (logger LogWarn m st)"
  shows "\<exists>st'. r = Inr st' \<and> (st' = st \<or> (\<exists>m. st' = logger LogWarn m st)) \<and>
           tasks st' = tasks st \<and> registeredGroups st' = registeredGroups st \<and>
           groupDirs st' = groupDirs st \<and> pairedUsers st' = pairedUsers st \<and>
           pendingApprovals st' = pendingApprovals st \<and> outbox st' = outbox st"
  using assms by (auto simp: logger_def)

text \<open>
  C1. From a folder that is not the main group's, a \<^verbatim>\<open>schedule_task\<close> for another
  group, a \<^verbatim>\<open>register_group\<close>, a \<^verbatim>\<open>telegram_approve\<close>, a \<^verbatim>\<open>telegram_deny\<close>, and a
  pause, resume or cancel of a task that another group owns, all return without an
  exception and leave the host state as it was but for at most one warning in the log:
  the task table, the registry, the group folders, the pairing store and the messages
  sent are unchanged.
\<close>

theorem cross_tenant_request_rejected:
  assumes nonmain: "sourceGroup \<noteq> MAIN_GROUP_FOLDER cfg"
    and cross:
      "(field data ''type'' = Some (JStr ''schedule_task'') \<and>
          field data ''groupFolder'' = Some g \<and> g \<noteq> JStr sourceGroup) \<or>
       field data ''type'' = Some (JStr ''register_group'') \<or>
       field data ''type'' = Some (JStr ''telegram_approve'') \<or>
       field data ''type'' = Some (JStr ''telegram_deny'') \<or>
       ((field data ''type'' = Some (JStr ''pause_task'') \<or>
         field data ''type'' = Some (JStr ''resume_task'') \<or>
         field data ''type'' = Some (JStr ''cancel_task'')) \<and>
        field data ''taskId'' = Some tid \<and> getTaskById tid st = Some t \<and>
        group_folder t \<noteq> JStr sourceGroup)"
  shows "\<exists>st'. processTaskIpc P data sourceGroup (sourceGroup = MAIN_GROUP_FOLDER cfg) st = Inr st' \<and>
           (st' = st \<or> (\<exists>m. st' = logger LogWarn m st)) \<and>
           tasks st' = tasks st \<and> registeredGroups st' = registeredGroups st \<and>
           groupDirs st' = groupDirs st \<and> pairedUsers st' = pairedUsers st \<and>
           pendingApprovals st' = pendingApprovals st \<and> outbox st' = outbox st"
proof -
  have m: "(sourceGroup = MAIN_GROUP_FOLDER cfg) = False" using nonmain by simp
  from cross consider
      (sched) "field data ''type'' = Some (JStr ''schedule_task'')"
        "field data ''groupFolder'' = Some g" "g \<noteq> JStr sourceGroup"
    | (reg) "field data ''type'' = Some (JStr ''register_group'')"
    | (app) "field data ''type'' = Some (JStr ''telegram_approve'')"
    | (deny) "field data ''type'' = Some (JStr ''telegram_deny'')"
    | (pause) "field data ''type'' = Some (JStr ''pause_task'')"
        "field data ''taskId'' = Some tid" "getTaskById tid st = Some t"
        "group_folder t \<noteq> JStr sourceGroup"
    | (resume) "field data ''type'' = Some (JStr ''resume_task'')"
        "field data ''taskId'' = Some tid" "getTaskById tid st = Some t"
        "group_folder t \<noteq> JStr sourceGroup"
    | (cancel) "field data ''type'' = Some (JStr ''cancel_task'')"
        "field data ''taskId'' = Some tid" "getTaskById tid st = Some t"
        "group_folder t \<noteq> JStr sourceGroup"
    by blast
  then show ?thesis
  proof cases
    case sched
    show ?thesis unfolding m processTaskIpc_dispatch(1)[OF sched(1)]
      by (rule unchanged_or_warned) (rule schedule_task_blocked[OF sched(2,3)])
  next
    case reg
    show ?thesis unfolding m processTaskIpc_dispatch(5)[OF reg]
      by (rule unchanged_or_warned) (rule disjI2, rule privileged_blocked)
  next
    case app
    show ?thesis unfolding m processTaskIpc_dispatch(6)[OF app]
      by (rule unchanged_or_warned) (rule disjI2, rule privileged_blocked)
  next
    case deny
    show ?thesis unfolding m processTaskIpc_dispatch(7)[OF deny]
      by (rule unchanged_or_warned) (rule disjI2, rule privileged_blocked)
  next
    case pause
    show ?thesis unfolding m processTaskIpc_dispatch(2)[OF pause(1)]
      by (rule unchanged_or_warned) (rule pause_task_blocked[OF pause(2,3,4)])
  next
    case resume
    show ?thesis unfolding m processTaskIpc_dispatch(3)[OF resume(1)]
      by (rule unchanged_or_warned) (rule resume_task_blocked[OF resume(2,3,4)])
  next
    case cancel
    show ?thesis unfolding m processTaskIpc_dispatch(4)[OF cancel(1)]
      by (rule unchanged_or_warned) (rule cancel_task_blocked[OF cancel(2,3,4)])
  qed
qed

text \<open>The theorem on the example host: tenant alpha asks for an approval, and asks to
  pause the task of tenant beta.\<close>

theorem cross_tenant_request_rejected_witness:
  "''alpha'' \<noteq> MAIN_GROUP_FOLDER example_config \<and>
   field approve_request ''type'' = Some (JStr ''telegram_approve'') \<and>
   (\<exists>st'. processTaskIpc example_platform approve_request ''alpha''
            (''alpha'' = MAIN_GROUP_FOLDER example_config) example_host = Inr st' \<and>
      pairedUsers st' = pairedUsers example_host \<and>
      pendingApprovals st' = pendingApprovals example_host) \<and>
   field pause_request ''type'' = Some (JStr ''pause_task'') \<and>
   (\<exists>st'. processTaskIpc example_platform pause_request ''alpha''
            (''alpha'' = MAIN_GROUP_FOLDER example_config) example_host = Inr st' \<and>
      tasks st' = tasks example_host)"
proof -
  have h1: "''alpha'' \<noteq> MAIN_GROUP_FOLDER example_config"
    by (simp add: example_config_def)
  have h2: "field approve_request ''type'' = Some (JStr ''telegram_approve'')"
    by (simp add: approve_request_def field_def)
  have h3: "field pause_request ''type'' = Some (JStr ''pause_task'')"
    "field pause_request ''taskId'' = Some (JStr ''task-1-abcdef'')"
    by (simp_all add: pause_request_def field_def)
  have h4: "getTaskById (JStr ''task-1-abcdef'') example_host = Some (hd (tasks example_host))"
    "group_folder (hd (tasks example_host)) \<noteq> JStr ''alpha''"
    by (simp_all add: getTaskById_def example_host_def)
  from cross_tenant_request_rejected[where cfg = example_config and sourceGroup = "''alpha''"
      and data = approve_request and P = example_platform and st = example_host]
    cross_tenant_request_rejected[where cfg = example_config and sourceGroup = "''alpha''"
      and data = pause_request and P = example_platform and st = example_host
      and tid = "JStr ''task-1-abcdef''" and t = "hd (tasks example_host)"]
    h1 h2 h3 h4
  show ?thesis by blast
qed

text \<open>
  C5, as stated for every request, fails: a request with a valid interval creates no
  task when it names another tenant and comes from a tenant that is not elevated.
\<close>

theorem schedule_value_validation_counterexample:
  "parseInt (JStr ''60000'') = Some (Num 60000) \<and>
   field schedule_for_beta ''schedule_value'' = Some (JStr ''60000'') \<and>
   tasks (state_after (processTaskIpc example_platform schedule_for_beta ''alpha'' False example_host)) =
     tasks example_host"
  by (simp add: handler_defs schedule_for_beta_def)

text \<open>
  The interval branch does not test the date it builds, as the branch for \<^verbatim>\<open>once\<close>
  does: an interval that is a positive integer, but takes the first fire time beyond the
  last date, makes \<^verbatim>\<open>toISOString\<close> throw, and no task is created.
\<close>

lemma schedule_far_interval_throws:
  "parseInt (JStr ''9000000000000000'') = Some (Num 9000000000000000) \<and>
   processTaskIpc example_platform schedule_far_interval ''main'' True example_host =
     Inl (RangeError, example_host)"
  by (simp add: handler_defs schedule_far_interval_def example_platform_def)

text \<open>
  C5, as amended. For a \<^verbatim>\<open>schedule_task\<close> request: a cron value the parser refuses, an
  interval value that \<^verbatim>\<open>parseInt\<close> does not read as a positive integer, and a value for
  \<^verbatim>\<open>once\<close> that is not a date, each leave the task table as it was. When the request
  has a prompt, names a target it may schedule for and has a destination, a cron value
  with a next time, an interval that is a positive integer with the first fire time in
  the range of dates, and a date for \<^verbatim>\<open>once\<close> (past or future), each insert exactly one
  row, active, with that first fire time.
\<close>

theorem schedule_value_validation:
  assumes ty: "field data ''type'' = Some (JStr ''schedule_task'')"
    and sv: "field data ''schedule_value'' = Some v"
  shows
    "(field data ''schedule_type'' = Some (JStr ''cron'') \<and> cron_next P v = None
        \<longrightarrow> tasks (state_after (processTaskIpc P data sourceGroup isMain st)) = tasks st) \<and>
     (field data ''schedule_type'' = Some (JStr ''interval'') \<and>
      \<not> (\<exists>ms. parseInt v = Some (Num ms) \<and> 0 < ms)
        \<longrightarrow> tasks (state_after (processTaskIpc P data sourceGroup isMain st)) = tasks st) \<and>
     (field data ''schedule_type'' = Some (JStr ''once'') \<and> \<not> (\<exists>t. newDate P v = Inr (Some t))
        \<longrightarrow> tasks (state_after (processTaskIpc P data sourceGroup isMain st)) = tasks st) \<and>
     (truthy (field data ''prompt'') \<and> truthy (Some v) \<and>
      field data ''groupFolder'' = Some g \<and> truthy (Some g) \<and>
      (isMain \<or> g = JStr sourceGroup) \<and>
      targetJid_of data g st = Some jid \<and> truthy (Some jid) \<and>
      ((field data ''schedule_type'' = Some (JStr ''cron'') \<and> cron_next P v = Some t) \<or>
       (field data ''schedule_type'' = Some (JStr ''interval'') \<and>
          (\<exists>ms. parseInt v = Some (Num ms) \<and> 0 < ms \<and> validTime (Date_now P 198 + ms) \<and>
             t = Date_now P 198 + ms)) \<or>
       (field data ''schedule_type'' = Some (JStr ''once'') \<and> newDate P v = Inr (Some t)))
        \<longrightarrow> (\<exists>st' row. processTaskIpc P data sourceGroup isMain st = Inr st' \<and>
               tasks st' = tasks st @ [row] \<and> status row = ''active'' \<and>
               next_run row = Some t \<and> group_folder row = g \<and> chat_jid row = jid))"
proof (intro conjI impI)
  assume "field data ''schedule_type'' = Some (JStr ''cron'') \<and> cron_next P v = None"
  then show "tasks (state_after (processTaskIpc P data sourceGroup isMain st)) = tasks st"
    unfolding processTaskIpc_dispatch(1)[OF ty]
    by (intro schedule_task_not_next[OF sv]) (simp add: computeNextRun_invalid_cron)
next
  assume "field data ''schedule_type'' = Some (JStr ''interval'') \<and>
      \<not> (\<exists>ms. parseInt v = Some (Num ms) \<and> 0 < ms)"
  then show "tasks (state_after (processTaskIpc P data sourceGroup isMain st)) = tasks st"
    unfolding processTaskIpc_dispatch(1)[OF ty]
    by (intro schedule_task_not_next[OF sv]) (simp add: computeNextRun_invalid_interval)
next
  assume "field data ''schedule_type'' = Some (JStr ''once'') \<and> \<not> (\<exists>t. newDate P v = Inr (Some t))"
  then show "tasks (state_after (processTaskIpc P data sourceGroup isMain st)) = tasks st"
    unfolding processTaskIpc_dispatch(1)[OF ty]
    by (intro schedule_task_not_next[OF sv]) (simp add: computeNextRun_invalid_once)
next
  assume a: "truthy (field data ''prompt'') \<and> truthy (Some v) \<and>
      field data ''groupFolder'' = Some g \<and> truthy (Some g) \<and>
      (isMain \<or> g = JStr sourceGroup) \<and>
      targetJid_of data g st = Some jid \<and> truthy (Some jid) \<and>
      ((field data ''schedule_type'' = Some (JStr ''cron'') \<and> cron_next P v = Some t) \<or>
       (field data ''schedule_type'' = Some (JStr ''interval'') \<and>
          (\<exists>ms. parseInt v = Some (Num ms) \<and> 0 < ms \<and> validTime (Date_now P 198 + ms) \<and>
             t = Date_now P 198 + ms)) \<or>
       (field data ''schedule_type'' = Some (JStr ''once'') \<and> newDate P v = Inr (Some t)))"
  then have nr: "computeNextRun P (field data ''schedule_type'') v = NextRun (Some t) \<and>
      truthy (field data ''schedule_type'')"
    by (intro computeNextRun_valid) blast
  from a nr sv have "schedule_task P data sourceGroup isMain st =
      Inr (insertTask P data sourceGroup g jid (Some t) st)"
    by (intro schedule_task_valid[where v = v]) auto
  then have "processTaskIpc P data sourceGroup isMain st =
      Inr (insertTask P data sourceGroup g jid (Some t) st)"
    by (simp add: processTaskIpc_dispatch(1)[OF ty])
  then show "\<exists>st' row. processTaskIpc P data sourceGroup isMain st = Inr st' \<and>
               tasks st' = tasks st @ [row] \<and> status row = ''active'' \<and>
               next_run row = Some t \<and> group_folder row = g \<and> chat_jid row = jid"
    by (simp add: tasks_insertTask)
qed

text \<open>The theorem on the example host: tenant alpha schedules a task for itself, once, at
  a time in the past.\<close>

theorem schedule_value_validation_witness:
  "field schedule_once_request ''type'' = Some (JStr ''schedule_task'') \<and>
   field schedule_once_request ''schedule_value'' = Some (JStr ''2020-01-01T00:00:00.000Z'') \<and>
   newDate example_platform (JStr ''2020-01-01T00:00:00.000Z'') = Inr (Some 1577836800000) \<and>
   1577836800000 < Date_now example_platform 198 \<and>
   (\<exists>st' row. processTaskIpc example_platform schedule_once_request ''alpha'' False example_host = Inr st' \<and>
      tasks st' = tasks example_host @ [row] \<and> status row = ''active'' \<and>
      next_run row = Some 1577836800000 \<and> group_folder row = JStr ''alpha'')"
proof -
  have h1: "field schedule_once_request ''type'' = Some (JStr ''schedule_task'')"
    "field schedule_once_request ''schedule_value'' = Some (JStr ''2020-01-01T00:00:00.000Z'')"
    "field schedule_once_request ''schedule_type'' = Some (JStr ''once'')"
    "field schedule_once_request ''groupFolder'' = Some (JStr ''alpha'')"
    "truthy (field schedule_once_request ''prompt'')"
    by (simp_all add: schedule_once_request_def field_def)
  have h2: "newDate example_platform (JStr ''2020-01-01T00:00:00.000Z'') = Inr (Some 1577836800000)"
    "1577836800000 < Date_now example_platform 198"
    by (simp_all add: newDate_def example_platform_def)
  have h3: "targetJid_of schedule_once_request (JStr ''alpha'') example_host = Some (JStr ''tg:100'')"
    by (simp add: targetJid_of_def schedule_once_request_def field_def)
  have h4: "truthy (Some (JStr ''2020-01-01T00:00:00.000Z''))" "truthy (Some (JStr ''alpha''))"
    "truthy (Some (JStr ''tg:100''))"
    by simp_all
  from schedule_value_validation[OF h1(1) h1(2), where P = example_platform
      and sourceGroup = "''alpha''" and isMain = False and st = example_host
      and g = "JStr ''alpha''" and jid = "JStr ''tg:100''" and t = 1577836800000]
    h1 h2 h3 h4
  show ?thesis by blast
qed

text \<open>
  C9. Whatever a \<^verbatim>\<open>schedule_task\<close> request holds, the handler leaves the task table
  as it was or adds one row to it, and that row has context mode \<^verbatim>\<open>group\<close> when the
  request says \<^verbatim>\<open>group\<close> and \<^verbatim>\<open>isolated\<close> in every other case, status \<^verbatim>\<open>active\<close>, and
  the creation time read from the clock.
\<close>

theorem created_task_row:
  assumes ty: "field data ''type'' = Some (JStr ''schedule_task'')"
  shows "tasks (state_after (processTaskIpc P data sourceGroup isMain st)) = tasks st \<or>
         (\<exists>row. tasks (state_after (processTaskIpc P data sourceGroup isMain st)) = tasks st @ [row] \<and>
            (context_mode row = ''group'' \<or> context_mode row = ''isolated'') \<and>
            context_mode row =
              (if field data ''context_mode'' = Some (JStr ''group'') then ''group''
               else if field data ''context_mode'' = Some (JStr ''isolated'') then ''isolated''
               else ''isolated'') \<and>
            status row = ''active'' \<and> created_at row = Date_now P 222)"
proof -
  from schedule_task_outcomes[of P data sourceGroup isMain st]
  show ?thesis
  proof
    assume "tasks (state_after (schedule_task P data sourceGroup isMain st)) = tasks st"
    then show ?thesis by (simp add: processTaskIpc_dispatch(1)[OF ty])
  next
    assume "\<exists>g jid nr. schedule_task P data sourceGroup isMain st =
              Inr (insertTask P data sourceGroup g jid nr st)"
    then obtain g jid nr where
      "processTaskIpc P data sourceGroup isMain st = Inr (insertTask P data sourceGroup g jid nr st)"
      by (auto simp: processTaskIpc_dispatch(1)[OF ty])
    then show ?thesis
      by (simp add: state_after_def tasks_insertTask)
  qed
qed

text \<open>The theorem on the example host: the request asks for the context mode
  \<^verbatim>\<open>shared\<close>, which is not one of the two, and the row is isolated.\<close>

theorem created_task_row_witness:
  "field schedule_interval_request ''type'' = Some (JStr ''schedule_task'') \<and>
   field schedule_interval_request ''context_mode'' = Some (JStr ''shared'') \<and>
   (\<exists>row. tasks (state_after (processTaskIpc example_platform schedule_interval_request ''alpha''
                   False example_host)) = tasks example_host @ [row] \<and>
      context_mode row = ''isolated'' \<and> status row = ''active'' \<and>
      created_at row = Date_now example_platform 222)"
proof -
  have h1: "field schedule_interval_request ''type'' = Some (JStr ''schedule_task'')"
    "field schedule_interval_request ''context_mode'' = Some (JStr ''shared'')"
    by (simp_all add: schedule_interval_request_def field_def)
  have h2: "length (tasks (state_after (processTaskIpc example_platform schedule_interval_request
              ''alpha'' False example_host))) \<noteq> length (tasks example_host)"
    by (simp add: handler_defs schedule_interval_request_def example_platform_def example_host_def)
  from created_task_row[OF h1(1), where P = example_platform and sourceGroup = "''alpha''"
      and isMain = False and st = example_host] h1 h2
  show ?thesis by auto
qed

section \<open>The drainer\<close>

lemma map_of_assign: "map_of (assign k v kvs) k = Some v"
  by (induction kvs) auto

lemma pending_unlinkSync:
  "pending (unlinkSync p fs) = filter (\<lambda>(q, body). q \<noteq> p) (pending fs)"
  "errors (unlinkSync p fs) = errors fs"
  "folders (unlinkSync p fs) = folders fs"
  by (simp_all add: unlinkSync_def)

lemma unlinkSync_removes: "p \<notin> fst ` set (pending (unlinkSync p fs))"
  by (auto simp: unlinkSync_def)

lemma renameSync_facts:
  "pending (renameSync g k fname body fs) = filter (\<lambda>(q, b). q \<noteq> (g, k, fname)) (pending fs)"
  "(g, k, fname) \<notin> fst ` set (pending (renameSync g k fname body fs))"
  "map_of (errors (renameSync g k fname body fs)) (g @ ''-'' @ fname) = Some body"
  by (auto simp: renameSync_def unlinkSync_def map_of_assign)

lemma mkdirErrors_facts:
  "pending (mkdirErrors fs) = pending fs"
  "errors (mkdirErrors fs) = errors fs"
  by (simp_all add: mkdirErrors_def)

lemma moveToErrors_fits:
  "renameFits P g fname \<Longrightarrow> moveToErrors P g k fname body fs = renameSync g k fname body (mkdirErrors fs)"
  by (simp add: moveToErrors_def)

lemma moveToErrors_too_long:
  "\<not> renameFits P g fname \<Longrightarrow> moveToErrors P g k fname body fs = mkdirErrors fs"
  by (simp add: moveToErrors_def)

lemma pending_moveToErrors_subset:
  "set (pending (moveToErrors P g k fname body fs)) \<subseteq> set (pending fs)"
  by (auto simp: moveToErrors_def renameSync_def mkdirErrors_def unlinkSync_def)

lemma listDir_unlinked: "(fname, body) \<notin> set (listDir (unlinkSync (g, k, fname) fs) g k)"
  by (auto simp: listDir_def unlinkSync_def)

lemma listDir_mem:
  "(fname, body) \<in> set (listDir fs g k) \<Longrightarrow>
   ((g, k, fname), body) \<in> set (pending fs) \<and> endsWith fname ''.json''"
  by (auto simp: listDir_def)

text \<open>The body of the loop, by the way the code run on the parsed body ends.\<close>

lemma drainFile_returned:
  assumes "JSON_parse P body = Some data" "handler data g m st = Inr st'"
  shows "drainFile k handler P g m (fname, body) (fs, st) = (False, unlinkSync (g, k, fname) fs, st')"
  using assms by (simp add: drainFile_def)

lemma drainFile_threw:
  assumes "JSON_parse P body = None \<or>
           (\<exists>data e st'. JSON_parse P body = Some data \<and> handler data g m st = Inl (e, st'))"
  shows "fst (drainFile k handler P g m (fname, body) (fs, st)) = (\<not> renameFits P g fname) \<and>
         fst (snd (drainFile k handler P g m (fname, body) (fs, st))) = moveToErrors P g k fname body fs"
  using assms by (auto simp: drainFile_def)

lemma drainFile_disposition:
  "(\<exists>data st'. JSON_parse P body = Some data \<and> handler data g m st = Inr st' \<and>
      snd (drainFile k handler P g m (fname, body) (fs, st)) = (unlinkSync (g, k, fname) fs, st')) \<or>
   ((JSON_parse P body = None \<or>
      (\<exists>data e st'. JSON_parse P body = Some data \<and> handler data g m st = Inl (e, st'))) \<and>
    fst (snd (drainFile k handler P g m (fname, body) (fs, st))) = moveToErrors P g k fname body fs)"
  by (auto simp: drainFile_def split: option.split sum.split)

lemma drainFile_pending_subset:
  "set (pending (fst (snd (drainFile k handler P g m fb w)))) \<subseteq> set (pending (fst w))"
proof -
  obtain fname body fs st where fb: "fb = (fname, body)" and w: "w = (fs, st)"
    by (cases fb, cases w) blast
  from drainFile_disposition[of P body handler g m st k fname fs]
  show ?thesis
    unfolding fb w
    using pending_moveToErrors_subset[of P g k fname body fs]
    by (auto simp: unlinkSync_def)
qed

lemma drainFiles_pending_subset:
  "set (pending (fst (drainFiles k handler P g m fbs w))) \<subseteq> set (pending (fst w))"
proof (induction fbs arbitrary: w)
  case Nil
  then show ?case by simp
next
  case (Cons fb fbs)
  obtain escaped fs' st' where r: "drainFile k handler P g m fb w = (escaped, fs', st')"
    by (cases "drainFile k handler P g m fb w") auto
  have sub: "set (pending fs') \<subseteq> set (pending (fst w))"
    using drainFile_pending_subset[of k handler P g m fb w] by (simp add: r)
  show ?case
  proof (cases escaped)
    case True
    with r sub show ?thesis by simp
  next
    case False
    with r sub Cons.IH[of "(fs', st')"] show ?thesis by auto
  qed
qed

text \<open>What a run hands to the code that it runs on the bodies.\<close>

lemma drainFile_cong:
  assumes "\<And>data st. JSON_parse P body = Some data \<Longrightarrow> h data g m st = h' data g m st"
  shows "drainFile k h P g m (fname, body) w = drainFile k h' P g m (fname, body) w"
  by (cases w) (auto simp: drainFile_def assms split: option.split)

lemma drainFiles_cong:
  assumes "\<And>fname body data st. (fname, body) \<in> set fbs \<Longrightarrow> JSON_parse P body = Some data \<Longrightarrow>
             h data g m st = h' data g m st"
  shows "drainFiles k h P g m fbs w = drainFiles k h' P g m fbs w"
  using assms
proof (induction fbs arbitrary: w)
  case Nil
  then show ?case by simp
next
  case (Cons fb fbs)
  obtain fname body where fb: "fb = (fname, body)" by (cases fb)
  have step: "drainFile k h P g m fb w = drainFile k h' P g m fb w"
    unfolding fb by (rule drainFile_cong) (rule Cons.prems[of fname body], simp_all add: fb)
  have rest: "\<And>w'. drainFiles k h P g m fbs w' = drainFiles k h' P g m fbs w'"
    by (rule Cons.IH) (rule Cons.prems, auto)
  show ?case by (simp add: step rest split: prod.split)
qed

lemma processGroup_cong:
  assumes d: "\<And>fname body data st. ((g, Messages, fname), body) \<in> set (pending (fst w)) \<Longrightarrow>
                endsWith fname ''.json'' \<Longrightarrow> JSON_parse P body = Some data \<Longrightarrow>
                d data g (g = MAIN_GROUP_FOLDER cfg) st = d' data g (g = MAIN_GROUP_FOLDER cfg) st"
    and h: "\<And>fname body data st. ((g, Tasks, fname), body) \<in> set (pending (fst w)) \<Longrightarrow>
                endsWith fname ''.json'' \<Longrightarrow> JSON_parse P body = Some data \<Longrightarrow>
                h data g (g = MAIN_GROUP_FOLDER cfg) st = h' data g (g = MAIN_GROUP_FOLDER cfg) st"
  shows "processGroup d h cfg P g w = processGroup d' h' cfg P g w"
proof -
  let ?m = "g = MAIN_GROUP_FOLDER cfg"
  let ?w1 = "drainFiles Messages d P g ?m (listDir (fst w) g Messages) w"
  have m: "?w1 = drainFiles Messages d' P g ?m (listDir (fst w) g Messages) w"
    by (rule drainFiles_cong) (rule d, auto dest: listDir_mem)
  have sub: "set (pending (fst ?w1)) \<subseteq> set (pending (fst w))"
    by (rule drainFiles_pending_subset)
  have t: "drainFiles Tasks h P g ?m (listDir (fst ?w1) g Tasks) ?w1 =
           drainFiles Tasks h' P g ?m (listDir (fst ?w1) g Tasks) ?w1"
    by (rule drainFiles_cong) (rule h, use sub in \<open>auto dest: listDir_mem\<close>)
  show ?thesis
    unfolding processGroup_def Let_def m[symmetric] by (rule t)
qed

lemma processGroup_pending_subset:
  "set (pending (fst (processGroup d h cfg P g w))) \<subseteq> set (pending (fst w))"
  unfolding processGroup_def Let_def
  using drainFiles_pending_subset[of Tasks h P g "g = MAIN_GROUP_FOLDER cfg" _
          "drainFiles Messages d P g (g = MAIN_GROUP_FOLDER cfg) (listDir (fst w) g Messages) w"]
        drainFiles_pending_subset[of Messages d P g "g = MAIN_GROUP_FOLDER cfg" _ w]
  by blast

lemma groups_cong:
  assumes d: "\<And>g fname body data st. g \<in> set gs \<Longrightarrow>
                ((g, Messages, fname), body) \<in> set (pending (fst w)) \<Longrightarrow>
                endsWith fname ''.json'' \<Longrightarrow> JSON_parse P body = Some data \<Longrightarrow>
                d data g (g = MAIN_GROUP_FOLDER cfg) st = d' data g (g = MAIN_GROUP_FOLDER cfg) st"
    and h: "\<And>g fname body data st. g \<in> set gs \<Longrightarrow>
                ((g, Tasks, fname), body) \<in> set (pending (fst w)) \<Longrightarrow>
                endsWith fname ''.json'' \<Longrightarrow> JSON_parse P body = Some data \<Longrightarrow>
                h data g (g = MAIN_GROUP_FOLDER cfg) st = h' data g (g = MAIN_GROUP_FOLDER cfg) st"
  shows "foldl (\<lambda>w' g. processGroup d h cfg P g w') w gs =
         foldl (\<lambda>w' g. processGroup d' h' cfg P g w') w gs"
  using d h
proof (induction gs arbitrary: w)
  case Nil
  then show ?case by simp
next
  case (Cons g gs)
  have step: "processGroup d h cfg P g w = processGroup d' h' cfg P g w"
    by (rule processGroup_cong) (rule Cons.prems(1), simp_all, rule Cons.prems(2), simp_all)
  have sub: "set (pending (fst (processGroup d h cfg P g w))) \<subseteq> set (pending (fst w))"
    by (rule processGroup_pending_subset)
  have rest: "foldl (\<lambda>w' g. processGroup d h cfg P g w') (processGroup d h cfg P g w) gs =
              foldl (\<lambda>w' g. processGroup d' h' cfg P g w') (processGroup d h cfg P g w) gs"
  proof (rule Cons.IH)
    fix g' fname body data st
    assume "g' \<in> set gs" "((g', Messages, fname), body) \<in> set (pending (fst (processGroup d h cfg P g w)))"
      "endsWith fname ''.json''" "JSON_parse P body = Some data"
    with sub show "d data g' (g' = MAIN_GROUP_FOLDER cfg) st = d' data g' (g' = MAIN_GROUP_FOLDER cfg) st"
      by (intro Cons.prems(1)) auto
  next
    fix g' fname body data st
    assume "g' \<in> set gs" "((g', Tasks, fname), body) \<in> set (pending (fst (processGroup d h cfg P g w)))"
      "endsWith fname ''.json''" "JSON_parse P body = Some data"
    with sub show "h data g' (g' = MAIN_GROUP_FOLDER cfg) st = h' data g' (g' = MAIN_GROUP_FOLDER cfg) st"
      by (intro Cons.prems(2)) auto
  qed
  show ?case using rest by (simp add: step[symmetric])
qed

text \<open>
  C2. In a run of the drainer, the code that handles a task file and the code that
  delivers a message file are handed nothing but the parsed body of a file, the name of
  the folder in which that file lies, and, as the elevation flag, the comparison of that
  folder's name with the main group folder. Whatever the files hold, a run is the same for
  any two handlers, and any two delivery functions, that agree on such arguments: what
  they would do with a body under the name of another folder, or under the other value of
  the flag, never shows.
\<close>

theorem elevation_from_directory:
  assumes deliver: "\<And>g fname body data st.
      g \<in> set (folders fs) \<Longrightarrow> g \<noteq> ''errors'' \<Longrightarrow>
      ((g, Messages, fname), body) \<in> set (pending fs) \<Longrightarrow> endsWith fname ''.json'' \<Longrightarrow>
      JSON_parse P body = Some data \<Longrightarrow>
      d data g (g = MAIN_GROUP_FOLDER cfg) st = d' data g (g = MAIN_GROUP_FOLDER cfg) st"
    and handler: "\<And>g fname body data st.
      g \<in> set (folders fs) \<Longrightarrow> g \<noteq> ''errors'' \<Longrightarrow>
      ((g, Tasks, fname), body) \<in> set (pending fs) \<Longrightarrow> endsWith fname ''.json'' \<Longrightarrow>
      JSON_parse P body = Some data \<Longrightarrow>
      h data g (g = MAIN_GROUP_FOLDER cfg) st = h' data g (g = MAIN_GROUP_FOLDER cfg) st"
  shows "drain d h cfg P (fs, st0) = drain d' h' cfg P (fs, st0)"
  unfolding drain_def
  by (rule groups_cong) (rule deliver, simp_all, rule handler, simp_all)

text \<open>
  The theorem on the example host. Tenant alpha has left an approval request whose body
  names the main group as its own. The misled handler and the misled delivery function
  are not the code: handed that request under the name of the main group, the code pairs
  user 7 and the misled handler does not; handed the message of tenant alpha as elevated,
  the code sends it and the misled function does not. The run of the drainer is the same
  with them as with the code, and in it the approval is refused and only the message of
  the main group is sent.
\<close>

theorem elevation_from_directory_witness:
  "((''alpha'', Tasks, ''6.json''), ''{type:telegram_approve,userId:7,groupFolder:main,isMain:true}'')
     \<in> set (pending example_ipc) \<and>
   JSON_parse example_platform ''{type:telegram_approve,userId:7,groupFolder:main,isMain:true}'' =
     Some forged_request \<and>
   field forged_request ''groupFolder'' = Some (JStr ''main'') \<and>
   pairedUsers (state_after (processTaskIpc example_platform forged_request ''main'' True example_host))
     (Num 7) \<noteq> None \<and>
   pairedUsers (state_after (misled_handler forged_request ''main'' True example_host)) (Num 7) = None \<and>
   outbox (state_after (deliverMessage example_config example_platform message_request ''alpha'' True
     example_host)) = [(Num 100, ''m87: hello'', True)] \<and>
   outbox (state_after (misled_deliver message_request ''alpha'' True example_host)) = [] \<and>
   drain (deliverMessage example_config example_platform) (processTaskIpc example_platform)
     example_config example_platform (example_ipc, example_host) =
   drain misled_deliver misled_handler example_config example_platform (example_ipc, example_host) \<and>
   pairedUsers (snd (drain misled_deliver misled_handler example_config example_platform
     (example_ipc, example_host))) (Num 7) = None \<and>
   outbox (snd (drain misled_deliver misled_handler example_config example_platform
     (example_ipc, example_host))) = [(Num 100, ''m87: hello'', True)]"
proof -
  have differ:
    "((''alpha'', Tasks, ''6.json''), ''{type:telegram_approve,userId:7,groupFolder:main,isMain:true}'')
       \<in> set (pending example_ipc)"
    "JSON_parse example_platform ''{type:telegram_approve,userId:7,groupFolder:main,isMain:true}'' =
       Some forged_request"
    "field forged_request ''groupFolder'' = Some (JStr ''main'')"
    "pairedUsers (state_after (processTaskIpc example_platform forged_request ''main'' True example_host))
       (Num 7) \<noteq> None"
    "pairedUsers (state_after (misled_handler forged_request ''main'' True example_host)) (Num 7) = None"
    "outbox (state_after (deliverMessage example_config example_platform message_request ''alpha'' True
       example_host)) = [(Num 100, ''m87: hello'', True)]"
    "outbox (state_after (misled_deliver message_request ''alpha'' True example_host)) = []"
    by code_simp+
  have d: "\<And>g data st.
      deliverMessage example_config example_platform data g (g = MAIN_GROUP_FOLDER example_config) st =
      misled_deliver data g (g = MAIN_GROUP_FOLDER example_config) st"
    by (simp add: misled_deliver_def)
  have h: "processTaskIpc example_platform data g (g = MAIN_GROUP_FOLDER example_config) st =
      misled_handler data g (g = MAIN_GROUP_FOLDER example_config) st"
    if "((g, Tasks, fname), body) \<in> set (pending example_ipc)" for g fname body data st
  proof -
    from that have "g = ''alpha''" by (auto simp: example_ipc_def)
    then show ?thesis by (simp add: misled_handler_def)
  qed
  have same: "drain (deliverMessage example_config example_platform) (processTaskIpc example_platform)
     example_config example_platform (example_ipc, example_host) =
   drain misled_deliver misled_handler example_config example_platform (example_ipc, example_host)"
    by (rule elevation_from_directory) (rule d, rule h)
  have run:
    "pairedUsers (snd (processIpcFiles example_config example_platform (example_ipc, example_host)))
       (Num 7) = None"
    "outbox (snd (processIpcFiles example_config example_platform (example_ipc, example_host))) =
       [(Num 100, ''m87: hello'', True)]"
    by code_simp+
  from differ same run show ?thesis by (simp add: processIpcFiles_def)
qed






lemma processTaskFile_returned:
  assumes "JSON_parse P body = Some data" "handler data g m st = Inr st'"
  shows "processTaskFile handler P g m (fname, body) (fs, st) = (unlinkSync (g, Tasks, fname) fs, st')"
  using assms by (simp add: processTaskFile_def drainFile_returned)

lemma processTaskFile_disposition:
  "(\<exists>data st'. JSON_parse P body = Some data \<and> handler data g m st = Inr st' \<and>
      processTaskFile handler P g m (fname, body) (fs, st) = (unlinkSync (g, Tasks, fname) fs, st')) \<or>
   ((JSON_parse P body = None \<or>
      (\<exists>data e st'. JSON_parse P body = Some data \<and> handler data g m st = Inl (e, st'))) \<and>
    fst (processTaskFile handler P g m (fname, body) (fs, st)) = moveToErrors P g Tasks fname body fs)"
  unfolding processTaskFile_def by (rule drainFile_disposition)







text \<open>
  C7. When the body of a task file parses and the handler returns without an exception,
  as it does for every request it rejects by a test, the drainer deletes the file: the
  quarantine is as it was, the file is no longer in the mailbox, and the next listing of
  the folder does not hold it, so that the handler is not called for it again. Each
  task file is either deleted after the handler returned, or handed to the catch block
  after the parser or the handler threw. The requests of a tenant that is not elevated
  for a registration, an approval or a denial are among the deleted.
\<close>

theorem rejected_request_deleted:
  "(JSON_parse P body = Some data \<and> processTaskIpc P data g m st = Inr st'
      \<longrightarrow> processTaskFile (processTaskIpc P) P g m (fname, body) (fs, st) =
            (unlinkSync (g, Tasks, fname) fs, st') \<and>
          errors (unlinkSync (g, Tasks, fname) fs) = errors fs \<and>
          (g, Tasks, fname) \<notin> fst ` set (pending (unlinkSync (g, Tasks, fname) fs)) \<and>
          (fname, body) \<notin> set (listDir (unlinkSync (g, Tasks, fname) fs) g Tasks)) \<and>
   ((\<exists>data st'. JSON_parse P body = Some data \<and> processTaskIpc P data g m st = Inr st' \<and>
        processTaskFile (processTaskIpc P) P g m (fname, body) (fs, st) =
          (unlinkSync (g, Tasks, fname) fs, st')) \<or>
    ((JSON_parse P body = None \<or>
       (\<exists>data e st'. JSON_parse P body = Some data \<and> processTaskIpc P data g m st = Inl (e, st'))) \<and>
     fst (processTaskFile (processTaskIpc P) P g m (fname, body) (fs, st)) =
       moveToErrors P g Tasks fname body fs)) \<and>
   (JSON_parse P body = Some data \<and>
    (field data ''type'' = Some (JStr ''register_group'') \<or>
     field data ''type'' = Some (JStr ''telegram_approve'') \<or>
     field data ''type'' = Some (JStr ''telegram_deny''))
      \<longrightarrow> (\<exists>msg. processTaskFile (processTaskIpc P) P g False (fname, body) (fs, st) =
            (unlinkSync (g, Tasks, fname) fs, logger LogWarn msg st)))"
proof (intro conjI impI)
  assume a: "JSON_parse P body = Some data \<and> processTaskIpc P data g m st = Inr st'"
  then show "processTaskFile (processTaskIpc P) P g m (fname, body) (fs, st) =
            (unlinkSync (g, Tasks, fname) fs, st')"
    by (simp add: processTaskFile_returned)
next
  show "errors (unlinkSync (g, Tasks, fname) fs) = errors fs"
    by (rule pending_unlinkSync)
next
  show "(g, Tasks, fname) \<notin> fst ` set (pending (unlinkSync (g, Tasks, fname) fs))"
    by (rule unlinkSync_removes)
next
  show "(fname, body) \<notin> set (listDir (unlinkSync (g, Tasks, fname) fs) g Tasks)"
    by (rule listDir_unlinked)
next
  show "(\<exists>data st'. JSON_parse P body = Some data \<and> processTaskIpc P data g m st = Inr st' \<and>
        processTaskFile (processTaskIpc P) P g m (fname, body) (fs, st) =
          (unlinkSync (g, Tasks, fname) fs, st')) \<or>
    ((JSON_parse P body = None \<or>
       (\<exists>data e st'. JSON_parse P body = Some data \<and> processTaskIpc P data g m st = Inl (e, st'))) \<and>
     fst (processTaskFile (processTaskIpc P) P g m (fname, body) (fs, st)) =
       moveToErrors P g Tasks fname body fs)"
    by (rule processTaskFile_disposition)
next
  assume a: "JSON_parse P body = Some data \<and>
    (field data ''type'' = Some (JStr ''register_group'') \<or>
     field data ''type'' = Some (JStr ''telegram_approve'') \<or>
     field data ''type'' = Some (JStr ''telegram_deny''))"
  then have "\<exists>msg. processTaskIpc P data g False st = Inr (logger LogWarn msg st)"
    by (auto simp: processTaskIpc_dispatch privileged_blocked)
  with a show "\<exists>msg. processTaskFile (processTaskIpc P) P g False (fname, body) (fs, st) =
            (unlinkSync (g, Tasks, fname) fs, logger LogWarn msg st)"
    by (auto simp: processTaskFile_returned)
qed

text \<open>The theorem on the example host: the approval that tenant alpha asks for.\<close>

theorem rejected_request_deleted_witness:
  "JSON_parse example_platform ''{type:telegram_approve,userId:7}'' = Some approve_request \<and>
   processTaskIpc example_platform approve_request ''alpha'' False example_host =
     Inr (logger LogWarn ''Unauthorized telegram_approve attempt blocked'' example_host) \<and>
   processTaskFile (processTaskIpc example_platform) example_platform ''alpha'' False
       (''1.json'', ''{type:telegram_approve,userId:7}'') (example_ipc, example_host) =
     (unlinkSync (''alpha'', Tasks, ''1.json'') example_ipc,
      logger LogWarn ''Unauthorized telegram_approve attempt blocked'' example_host) \<and>
   errors (unlinkSync (''alpha'', Tasks, ''1.json'') example_ipc) = errors example_ipc \<and>
   (''alpha'', Tasks, ''1.json'') \<notin> fst ` set (pending (unlinkSync (''alpha'', Tasks, ''1.json'') example_ipc))"
proof -
  have h1: "JSON_parse example_platform ''{type:telegram_approve,userId:7}'' = Some approve_request"
    by (simp add: example_platform_def)
  have h2: "processTaskIpc example_platform approve_request ''alpha'' False example_host =
     Inr (logger LogWarn ''Unauthorized telegram_approve attempt blocked'' example_host)"
    by (simp add: processTaskIpc_def approve_request_def field_def telegram_approve_def)
  from rejected_request_deleted[where P = example_platform
      and body = "''{type:telegram_approve,userId:7}''" and data = approve_request
      and g = "''alpha''" and m = False and st = example_host
      and st' = "logger LogWarn ''Unauthorized telegram_approve attempt blocked'' example_host"
      and fname = "''1.json''" and fs = example_ipc] h1 h2
  show ?thesis by blast
qed

text \<open>
  What the catch block does with a file whose body does not parse or for which the code
  run on the body throws. When the name \<^verbatim>\<open><folder>-<file>\<close> is one the file system
  takes, the file leaves its mailbox and \<^verbatim>\<open>errors/\<close> holds its body under that name.
  When the name is too long, the file stays in its mailbox, \<^verbatim>\<open>errors/\<close> gets nothing,
  and the exception leaves the loop over the folder's files.
\<close>

lemma drainFile_quarantined:
  assumes "JSON_parse P body = None \<or>
           (\<exists>data e st'. JSON_parse P body = Some data \<and> handler data g m st = Inl (e, st'))"
    and "renameFits P g fname"
  shows "fst (drainFile k handler P g m (fname, body) (fs, st)) = False \<and>
         (g, k, fname) \<notin> fst ` set (pending (fst (snd (drainFile k handler P g m (fname, body) (fs, st))))) \<and>
         map_of (errors (fst (snd (drainFile k handler P g m (fname, body) (fs, st))))) (g @ ''-'' @ fname) =
           Some body"
  using drainFile_threw[where k = k and fname = fname and fs = fs and handler = handler
      and P = P and body = body and g = g and m = m and st = st] assms
    renameSync_facts[of g k fname body "mkdirErrors fs"]
  by (simp add: moveToErrors_fits)

lemma drainFile_stuck:
  assumes "JSON_parse P body = None \<or>
           (\<exists>data e st'. JSON_parse P body = Some data \<and> handler data g m st = Inl (e, st'))"
    and "\<not> renameFits P g fname"
  shows "fst (drainFile k handler P g m (fname, body) (fs, st)) = True \<and>
         pending (fst (snd (drainFile k handler P g m (fname, body) (fs, st)))) = pending fs \<and>
         errors (fst (snd (drainFile k handler P g m (fname, body) (fs, st)))) = errors fs"
  using drainFile_threw[where k = k and fname = fname and fs = fs and handler = handler
      and P = P and body = body and g = g and m = m and st = st] assms
    mkdirErrors_facts[of fs]
  by (simp add: moveToErrors_too_long)

lemma drainFiles_stuck:
  assumes "JSON_parse P body = None \<or>
           (\<exists>data e st'. JSON_parse P body = Some data \<and> handler data g m st = Inl (e, st'))"
    and "\<not> renameFits P g fname"
  shows "pending (fst (drainFiles k handler P g m ((fname, body) # fbs) (fs, st))) = pending fs \<and>
         errors (fst (drainFiles k handler P g m ((fname, body) # fbs) (fs, st))) = errors fs"
  using drainFile_stuck[where k = k and fname = fname and fs = fs and handler = handler
      and P = P and body = body and g = g and m = m and st = st] assms
  by (cases "drainFile k handler P g m (fname, body) (fs, st)") auto

text \<open>
  C3 fails in the code at a file whose name is long. A run on the example mailbox moves
  the two files of tenant alpha that fail, one with a body that does not parse and one for
  which the delivery code throws, to \<^verbatim>\<open>errors/\<close> and leaves no file pending. In the
  second mailbox tenant alpha has left a task file with a name of 250 characters and the
  same body that does not parse; the name it would get in \<^verbatim>\<open>errors/\<close> has 256
  characters, one more than the file system takes. After a run of the drainer that file
  is still in the mailbox and \<^verbatim>\<open>errors/\<close> is empty; the task file listed after it has
  not been read; the log holds the failure of the file and the failure that the outer
  catch reports. The next run reads the file again, with the same outcome.
\<close>

theorem long_name_entry_stays_pending:
  "JSON_parse example_platform ''{type:schedule_task,prompt:ping'' = None \<and>
   errors (fst (processIpcFiles example_config example_platform (example_ipc, example_host))) =
     [(''alpha-5.json'', ''null''), (''alpha-2.json'', ''{type:schedule_task,prompt:ping'')] \<and>
   pending (fst (processIpcFiles example_config example_platform (example_ipc, example_host))) = [] \<and>
   length long_name = 250 \<and> endsWith long_name ''.json'' \<and>
   length (''alpha'' @ ''-'' @ long_name) = 256 \<and> NAME_MAX example_platform = 255 \<and>
   fst (processIpcFiles example_config example_platform (stuck_ipc, example_host)) =
     stuck_ipc\<lparr>folders := [''alpha'', ''main'', ''errors'']\<rparr> \<and>
   pending (fst (processIpcFiles example_config example_platform (stuck_ipc, example_host))) =
     pending stuck_ipc \<and>
   errors (fst (processIpcFiles example_config example_platform (stuck_ipc, example_host))) = [] \<and>
   logs (snd (processIpcFiles example_config example_platform (stuck_ipc, example_host))) =
     [(LogError, ''Error processing IPC task''), (LogError, ''Error reading IPC tasks directory'')] \<and>
   fst (processIpcFiles example_config example_platform
          (processIpcFiles example_config example_platform (stuck_ipc, example_host))) =
     stuck_ipc\<lparr>folders := [''alpha'', ''main'', ''errors'']\<rparr> \<and>
   logs (snd (processIpcFiles example_config example_platform
          (processIpcFiles example_config example_platform (stuck_ipc, example_host)))) =
     [(LogError, ''Error processing IPC task''), (LogError, ''Error reading IPC tasks directory''),
      (LogError, ''Error processing IPC task''), (LogError, ''Error reading IPC tasks directory'')]"
  by code_simp

end
